theory Spec2Isabelle
  imports Complex_Main "HOL-Library.Sublist"
begin

section \<open>JavaScript outcomes\<close>

text \<open>
  A call either returns a value or throws (an \<^verbatim>\<open>async\<close> function: resolves or rejects).
  \<open>Inl\<close> is the thrown error, \<open>Inr\<close> the returned value.
\<close>

datatype js_error = TypeError | ReferenceError | SyntaxError | Error string

type_synonym 'a js = "js_error + 'a"

section \<open>Strings\<close>

text \<open>
  Strings are byte strings (UTF-8). \<^verbatim>\<open>String.prototype.trim\<close> and
  \<^verbatim>\<open>String.prototype.toLowerCase\<close> are built-ins of the runtime and range over all of
  Unicode; they are taken as they are, as two functions on strings. Whatever calls one
  of them below is given the pair.
\<close>

record js_strings =
  trim :: "string \<Rightarrow> string"
  toLowerCase :: "string \<Rightarrow> string"

text \<open>
  The two built-ins on ASCII text, for the concrete inputs further down: on a string of
  ASCII characters they give what the runtime gives (the letters A-Z are lowered; tab,
  line feed, vertical tab, form feed, carriage return and space are stripped at both
  ends).
\<close>

definition ascii_lower :: "char \<Rightarrow> char" where
  "ascii_lower c =
     (let n = (of_char c :: nat) in if 65 \<le> n \<and> n \<le> 90 then char_of (n + 32) else c)"

definition ascii_space :: "char \<Rightarrow> bool" where
  "ascii_space c = ((of_char c :: nat) \<in> {9, 10, 11, 12, 13, 32})"

definition ascii_trim :: "string \<Rightarrow> string" where
  "ascii_trim s = rev (dropWhile ascii_space (rev (dropWhile ascii_space s)))"

definition ascii :: js_strings where
  "ascii = \<lparr>trim = ascii_trim, toLowerCase = map ascii_lower\<rparr>"

text \<open>\<^verbatim>\<open>s.includes(sub)\<close>: \<open>sub\<close> occurs in \<open>s\<close> as a contiguous run.\<close>

fun includesStr :: "string \<Rightarrow> string \<Rightarrow> bool" where
  "includesStr [] sub = (sub = [])"
| "includesStr (c # s) sub = (prefix sub (c # s) \<or> includesStr s sub)"

text \<open>\<^verbatim>\<open>s.endsWith('.')\<close>.\<close>

definition endsWithDot :: "string \<Rightarrow> bool" where
  "endsWithDot s = (s \<noteq> [] \<and> last s = CHR ''.'')"

text \<open>\<^verbatim>\<open>s.replace(/\./g, r)\<close>: every full stop becomes \<open>r\<close>.\<close>

definition replaceAllDots :: "string \<Rightarrow> string \<Rightarrow> string" where
  "replaceAllDots s r = concat (map (\<lambda>c. if c = CHR ''.'' then r else [c]) s)"

text \<open>\<^verbatim>\<open>s.replace(/\.$/, r)\<close>: without the \<^verbatim>\<open>m\<close> flag \<^verbatim>\<open>$\<close> is the end of the input, so
  only a final full stop is replaced.\<close>

definition replaceFinalDot :: "string \<Rightarrow> string \<Rightarrow> string" where
  "replaceFinalDot s r = (if endsWithDot s then butlast s @ r else s)"

text \<open>The three emoji the service tests for, as their UTF-8 bytes
  (U+1F60A smiling face, U+1F44B waving hand, U+1F31F glowing star).\<close>

definition smile :: string where
  "smile = [CHR 0xF0, CHR 0x9F, CHR 0x98, CHR 0x8A]"

definition wave :: string where
  "wave = [CHR 0xF0, CHR 0x9F, CHR 0x91, CHR 0x8B]"

definition star :: string where
  "star = [CHR 0xF0, CHR 0x9F, CHR 0x8C, CHR 0x9F]"

section \<open>Data model\<close>

subsection \<open>Results of the message pipeline (AIService)\<close>

text \<open>An intent object \<^verbatim>\<open>{ name, confidence, source }\<close>; the fallback intent of
  \<^verbatim>\<open>processMessage\<close> carries no \<^verbatim>\<open>source\<close>.\<close>

record intent =
  i_name :: string
  i_confidence :: real
  i_source :: "string option"

record entity =
  e_type :: string
  e_value :: string
  e_confidence :: real

text \<open>The object \<^verbatim>\<open>processMessage\<close> returns. Times are milliseconds (\<^verbatim>\<open>Date.now()\<close>).\<close>

record ai_result =
  r_response :: string
  r_intent :: intent
  r_entities :: "entity list"
  r_sentiment :: string
  r_confidence :: real
  r_responseTime :: int
  r_cached :: bool

text \<open>One turn of the rolling history kept in the context,
  \<^verbatim>\<open>{ message, intent, timestamp }\<close>.\<close>

record turn =
  t_message :: string
  t_intent :: intent
  t_timestamp :: int

text \<open>The per (user, room) context object. \<^verbatim>\<open>conversationHistory\<close> is \<open>None\<close> where the
  property is missing. \<^verbatim>\<open>userPreferences\<close> is only ever the empty object and is left out.\<close>

record conv_context =
  conversationHistory :: "turn list option"
  lastIntent :: "intent option"
  lastEntities :: "entity list"
  lastUpdated :: "int option"

subsection \<open>Conversations (models/Chat.js)\<close>

record feedback =
  f_rating :: "real option"
  f_comment :: "string option"
  f_timestamp :: int

text \<open>A message sub-document. \<open>m_id\<close> is the \<^verbatim>\<open>_id\<close> Mongoose gives the sub-document.\<close>

record message =
  m_id :: nat
  m_userId :: string
  m_message :: string
  m_response :: string
  m_intent :: string
  m_entities :: "entity list"
  m_sentiment :: string
  m_confidence :: real
  m_responseTime :: real
  m_feedback :: "feedback option"

text \<open>
  What \<^verbatim>\<open>p.userId\<close> holds for a participant, each time with the identifier the
  collection holds for it:
  \<^item> \<open>Ident\<close>: the identifier itself, as in the collection and in an entry just pushed;
  \<^item> \<open>UserDoc\<close>: the user document of that identifier, after
    \<^verbatim>\<open>populate('participants.userId', ...)\<close>, or the object parsed from its JSON;
  \<^item> \<open>Missing\<close>: \<^verbatim>\<open>null\<close>, which is what \<^verbatim>\<open>populate\<close> leaves when the User collection has no
    such document.
\<close>

datatype user_ref = Ident string | UserDoc string | Missing string

definition ref_id :: "user_ref \<Rightarrow> string" where
  "ref_id ref = (case ref of Ident i \<Rightarrow> i | UserDoc i \<Rightarrow> i | Missing i \<Rightarrow> i)"

record participant =
  p_userId :: user_ref
  p_role :: string
  p_joinedAt :: int
  p_leftAt :: "int option"

datatype status = Active | Paused | Ended | Archived

record analytics =
  totalMessages :: nat
  averageResponseTime :: real
  userSatisfaction :: real
  lastActivity :: int

text \<open>The fields of a chat document that the services read or write. The \<^verbatim>\<open>roomId\<close> of a
  document, unique in the collection and never assigned after creation, is the key under
  which the collection holds it.\<close>

record chat =
  participants :: "participant list"
  messages :: "message list"
  status :: status
  analytics :: analytics

section \<open>The cache (config/redis.js)\<close>

text \<open>
  What \<^verbatim>\<open>JSON.parse\<close> gives back for a value one of the services stored: a pipeline
  result, a context or a chat. It is a plain object: it has the data of what was stored
  and none of its methods.
\<close>

datatype cache_value = ResultV ai_result | ContextV conv_context | ChatV chat

text \<open>The text stored under a key: the JSON of a value, or text that is not JSON.\<close>

datatype raw = Json cache_value | Garbage

text \<open>
  The Redis client: its \<^verbatim>\<open>isReady\<close> flag, whether its commands reject (\<open>failing\<close>), and
  the stored texts with the instant (milliseconds) at which each expires.
\<close>

record redis_client =
  isReady :: bool
  failing :: bool
  entries :: "string \<rightharpoonup> raw \<times> int"

definition JSON_parse :: "raw \<Rightarrow> cache_value js" where
  "JSON_parse t = (case t of Json v \<Rightarrow> Inr v | Garbage \<Rightarrow> Inl SyntaxError)"

definition JSON_stringify :: "cache_value \<Rightarrow> raw js" where
  "JSON_stringify v = Inr (Json v)"

definition redis_get :: "redis_client \<Rightarrow> int \<Rightarrow> string \<Rightarrow> raw option js" where
  "redis_get c now key =
     (if failing c then Inl (Error ''redis'')
      else Inr (case entries c key of
                  None \<Rightarrow> None
                | Some (t, expires) \<Rightarrow> if now < expires then Some t else None))"

definition redis_setEx :: "redis_client \<Rightarrow> int \<Rightarrow> string \<Rightarrow> int \<Rightarrow> raw \<Rightarrow> redis_client js" where
  "redis_setEx c now key expireTime t =
     (if failing c then Inl (Error ''redis'')
      else Inr (c\<lparr>entries := (entries c)(key \<mapsto> (t, now + 1000 * expireTime))\<rparr>))"

definition redis_del :: "redis_client \<Rightarrow> string \<Rightarrow> redis_client js" where
  "redis_del c key =
     (if failing c then Inl (Error ''redis'')
      else Inr (c\<lparr>entries := (entries c)(key := None)\<rparr>))"

text \<open>The body of the \<^verbatim>\<open>try\<close> block of \<^verbatim>\<open>setCache\<close>, with the client after it.\<close>

definition setCache_try ::
  "redis_client option \<Rightarrow> int \<Rightarrow> string \<Rightarrow> cache_value \<Rightarrow> int \<Rightarrow> bool js \<times> redis_client option" where
  "setCache_try redisClient now key v expireTime =
     (case redisClient of
        None \<Rightarrow> (Inr False, redisClient)
      | Some c \<Rightarrow>
          if isReady c then
            (case JSON_stringify v of
               Inl e \<Rightarrow> (Inl e, redisClient)
             | Inr t \<Rightarrow>
                 (case redis_setEx c now key expireTime t of
                    Inl e \<Rightarrow> (Inl e, redisClient)
                  | Inr c' \<Rightarrow> (Inr True, Some c')))
          else (Inr False, redisClient))"

definition setCache ::
  "redis_client option \<Rightarrow> int \<Rightarrow> string \<Rightarrow> cache_value \<Rightarrow> int \<Rightarrow> bool js \<times> redis_client option" where
  "setCache redisClient now key v expireTime =
     (case setCache_try redisClient now key v expireTime of
        (Inl e, rc) \<Rightarrow> (Inr False, rc)
      | (Inr b, rc) \<Rightarrow> (Inr b, rc))"

definition getCache_try :: "redis_client option \<Rightarrow> int \<Rightarrow> string \<Rightarrow> cache_value option js" where
  "getCache_try redisClient now key =
     (case redisClient of
        None \<Rightarrow> Inr None
      | Some c \<Rightarrow>
          if isReady c then
            (case redis_get c now key of
               Inl e \<Rightarrow> Inl e
             | Inr None \<Rightarrow> Inr None
             | Inr (Some t) \<Rightarrow>
                 (case JSON_parse t of Inl e \<Rightarrow> Inl e | Inr v \<Rightarrow> Inr (Some v)))
          else Inr None)"

definition getCache :: "redis_client option \<Rightarrow> int \<Rightarrow> string \<Rightarrow> cache_value option js" where
  "getCache redisClient now key =
     (case getCache_try redisClient now key of Inl e \<Rightarrow> Inr None | Inr v \<Rightarrow> Inr v)"

definition deleteCache_try :: "redis_client option \<Rightarrow> string \<Rightarrow> bool js \<times> redis_client option" where
  "deleteCache_try redisClient key =
     (case redisClient of
        None \<Rightarrow> (Inr False, redisClient)
      | Some c \<Rightarrow>
          if isReady c then
            (case redis_del c key of
               Inl e \<Rightarrow> (Inl e, redisClient)
             | Inr c' \<Rightarrow> (Inr True, Some c'))
          else (Inr False, redisClient))"

definition deleteCache :: "redis_client option \<Rightarrow> string \<Rightarrow> bool js \<times> redis_client option" where
  "deleteCache redisClient key =
     (case deleteCache_try redisClient key of
        (Inl e, rc) \<Rightarrow> (Inr False, rc)
      | (Inr b, rc) \<Rightarrow> (Inr b, rc))"

text \<open>The client is absent, not ready, or rejects its commands.\<close>

definition unavailable :: "redis_client option \<Rightarrow> bool" where
  "unavailable redisClient =
     (case redisClient of None \<Rightarrow> True | Some c \<Rightarrow> \<not> isReady c \<or> failing c)"

section \<open>The message pipeline (AIService)\<close>

subsection \<open>Collaborators\<close>

text \<open>Sequencing of calls that may throw: the first throw ends the sequence.\<close>

definition andThen :: "'a js \<Rightarrow> ('a \<Rightarrow> 'b js) \<Rightarrow> 'b js" where
  "andThen r f = (case r of Inl e \<Rightarrow> Inl e | Inr v \<Rightarrow> f v)"

text \<open>One \<^verbatim>\<open>{ label, value }\<close> pair of the classifier's \<^verbatim>\<open>getClassifications\<close>.\<close>

record classification =
  c_label :: string
  c_value :: real

text \<open>The bag-of-words classifier (library \<^verbatim>\<open>natural\<close>), as the two methods the service
  calls. What it was trained on does not enter: its answers are taken as they come.\<close>

record classifier =
  classify :: "string \<Rightarrow> string js"
  getClassifications :: "string \<Rightarrow> classification list js"

text \<open>The document the tagger (library \<^verbatim>\<open>compromise\<close>) builds for a text, as the six
  lists \<^verbatim>\<open>doc.people().out('array')\<close>, ... the service reads, each of which may throw.\<close>

record nlp_doc =
  people :: "string list js"
  places :: "string list js"
  organizations :: "string list js"
  dates :: "string list js"
  numbers :: "string list js"
  urls :: "string list js"

text \<open>A request \<^verbatim>\<open>openai.chat.completions.create({ model, messages: [system, user],
  max_tokens, temperature })\<close>.\<close>

record chat_request =
  rq_model :: string
  rq_system :: string
  rq_user :: string
  rq_max_tokens :: nat
  rq_temperature :: real

text \<open>A completion, as the list of \<^verbatim>\<open>choices[i].message.content\<close>; \<open>None\<close> where a
  choice has no string there.\<close>

type_synonym chat_completion = "string option list"

text \<open>
  What the module scope of the service binds besides the class, and the environment:
  \<^item> \<open>OPENAI_API_KEY\<close>: \<^verbatim>\<open>process.env.OPENAI_API_KEY\<close>;
  \<^item> \<open>openai\<close>: the client, \<^verbatim>\<open>null\<close> unless the key was set when the module loaded; a
    client is its \<^verbatim>\<open>chat.completions.create\<close>;
  \<^item> \<open>sentiment_analyze\<close>: \<^verbatim>\<open>sentiment.analyze\<close>, giving the score;
  \<^item> \<open>free_getContext\<close>: what the free identifier \<^verbatim>\<open>getContext\<close> is bound to, \<open>None\<close>
    when nothing binds it;
  \<^item> \<open>builtins\<close>: the string built-ins of the runtime.
\<close>

record ai_module =
  OPENAI_API_KEY :: "string option"
  openai :: "(chat_request \<Rightarrow> chat_completion js) option"
  sentiment_analyze :: "string \<Rightarrow> real js"
  free_getContext :: "(string \<Rightarrow> string \<Rightarrow> conv_context js) option"
  builtins :: js_strings

text \<open>
  The identifiers the module binds at its top level: its five \<^verbatim>\<open>require\<close> bindings
  (\<^verbatim>\<open>getCache\<close> and \<^verbatim>\<open>setCache\<close> from one of them), \<^verbatim>\<open>openai\<close>, \<^verbatim>\<open>sentiment\<close>,
  \<^verbatim>\<open>tokenizer\<close> and the class. \<^verbatim>\<open>getContext\<close> exists only as a method of the class.
\<close>

definition module_bindings :: "string list" where
  "module_bindings =
     [''natural'', ''compromise'', ''Sentiment'', ''OpenAI'', ''getCache'', ''setCache'',
      ''openai'', ''sentiment'', ''tokenizer'', ''AIService'']"

text \<open>The module as the source has it: \<open>free_getContext\<close> is what \<open>module_bindings\<close> gives.\<close>

definition as_written :: "ai_module \<Rightarrow> bool" where
  "as_written md =
     (if ''getContext'' \<in> set module_bindings then free_getContext md \<noteq> None
      else free_getContext md = None)"

text \<open>A learning example, \<^verbatim>\<open>{ message, intent, entities, sentiment, response, userId,
  timestamp }\<close>.\<close>

record learning =
  l_message :: string
  l_intent :: intent
  l_entities :: "entity list"
  l_sentiment :: string
  l_response :: string
  l_userId :: string
  l_timestamp :: int

text \<open>The fields of the service object. \<open>intentClassifier\<close> and \<open>entityExtractor\<close> stay
  \<^verbatim>\<open>null\<close> when \<^verbatim>\<open>initializeModels\<close> failed.\<close>

record AIService =
  intentClassifier :: "classifier option"
  entityExtractor :: "(string \<Rightarrow> nlp_doc js) option"
  responseTemplates :: "string \<rightharpoonup> string list"
  learningData :: "learning list"

definition truthy :: "string option \<Rightarrow> bool" where
  "truthy k = (case k of None \<Rightarrow> False | Some s \<Rightarrow> s \<noteq> [])"

subsection \<open>loadResponseTemplates\<close>

definition templates_greeting :: "string list" where
  "templates_greeting =
    [''Hello! '' @ wave @ '' How can I help you today? I'm here to assist with questions, provide information, or just chat!'',
     ''Hi there! '' @ smile @ '' I'm your AI assistant and I'm excited to help. What would you like to explore or work on together?'',
     ''Hey! Great to see you. I'm ready to help with whatever you need - questions, tasks, or just conversation.'',
     ''Greetings! I'm your AI companion. What would you like to learn about or discuss today?'']"

definition templates_farewell :: "string list" where
  "templates_farewell =
    [''Goodbye! Have a wonderful day ahead! '' @ star,
     ''See you later! Feel free to come back anytime if you need help.'',
     ''Take care! I'll be here when you need assistance or want to chat again.'',
     ''Bye! It was great chatting with you. Come back soon! '' @ wave]"

definition templates_help :: "string list" where
  "templates_help =
    [''I'm here to help! I can answer questions, provide information, assist with tasks, help with problem-solving, or just be a great conversation partner. What specific area do you need help with?'',
     ''Absolutely! I'm your AI assistant and I'm ready to help. I can provide information, answer questions, help with various topics, or just chat. What would you like to work on?'',
     ''I'm glad you asked! I'm designed to help with a wide range of topics. Whether you need information, have questions, want to explore something new, or just need someone to talk to, I'm here for you. What can I help you with today?'']"

definition templates_question :: "string list" where
  "templates_question =
    [''That's an interesting question! I'd be happy to help you with that. Could you provide a bit more detail so I can give you the most accurate and helpful response?'',
     ''Great question! I'm here to help. To give you the best answer, could you tell me a bit more about what you're looking for?'',
     ''I'd love to help with that! To provide you with the most relevant information, could you share a bit more context about your question?'']"

definition templates_complaint :: "string list" where
  "templates_complaint =
    [''I'm sorry to hear you're experiencing an issue. Let me help you resolve this problem together.'',
     ''I understand your frustration. Let's work together to find a solution and get this sorted out.'',
     ''I apologize for the inconvenience. Let me assist you in finding a resolution to this problem.'']"

definition templates_compliment :: "string list" where
  "templates_compliment =
    [''Thank you! '' @ smile @ '' I'm glad I could help and I appreciate your kind words.'',
     ''You're welcome! I'm happy to assist and I really appreciate your feedback.'',
     ''Thank you! It's my pleasure to help you. I'm here whenever you need assistance.'']"

definition templates_information_request :: "string list" where
  "templates_information_request =
    [''I'd be happy to provide you with that information! Let me gather the details you need.'',
     ''Great! I can help you with that information. Let me find the most relevant details for you.'',
     ''Absolutely! I'll get you that information right away. What specific details are you looking for?'']"

definition templates_task_request :: "string list" where
  "templates_task_request =
    [''I'm ready to help you with that task! Let me understand what you need and guide you through it.'',
     ''Great! I can assist you with that. Let me break down what we need to do and help you accomplish it.'',
     ''I'd love to help you with that task! Let me understand your requirements and provide the best assistance.'']"

definition templates_learning :: "string list" where
  "templates_learning =
    [''Learning is wonderful! I'm excited to help you explore this topic. What specific aspect would you like to dive into?'',
     ''That's a great topic to learn about! I'm here to help you understand it better. What would you like to focus on?'',
     ''I love helping people learn! Let me guide you through this topic. What's your current level of understanding?'']"

definition templates_creative :: "string list" where
  "templates_creative =
    [''Creativity is amazing! I'd love to help you explore ideas and develop your creative project.'',
     ''That sounds like a wonderful creative endeavor! I'm here to help you brainstorm and develop your ideas.'',
     ''I'm excited to help with your creative project! Let's explore possibilities and bring your vision to life.'']"

definition loadResponseTemplates :: "string \<rightharpoonup> string list" where
  "loadResponseTemplates =
     map_of
       [(''greeting'', templates_greeting),
        (''farewell'', templates_farewell),
        (''help'', templates_help),
        (''question'', templates_question),
        (''complaint'', templates_complaint),
        (''compliment'', templates_compliment),
        (''information_request'', templates_information_request),
        (''task_request'', templates_task_request),
        (''learning'', templates_learning),
        (''creative'', templates_creative)]"

subsection \<open>detectIntent\<close>

definition intent_request :: "string \<Rightarrow> chat_request" where
  "intent_request message =
     \<lparr>rq_model = ''gpt-3.5-turbo'',
      rq_system = ''You are an intent classifier. Analyze the user message and return only the intent category. Choose from: greeting, farewell, help, question, complaint, compliment, information_request, task_request, or other.'',
      rq_user = message,
      rq_max_tokens = 10,
      rq_temperature = 0.1\<rparr>"

text \<open>\<^verbatim>\<open>await openai.chat.completions.create(rq)\<close>, with the requests that went out:
  none when \<^verbatim>\<open>openai\<close> is \<^verbatim>\<open>null\<close> (a TypeError).\<close>

definition create :: "ai_module \<Rightarrow> chat_request \<Rightarrow> chat_completion js \<times> chat_request list" where
  "create md rq = (case openai md of None \<Rightarrow> (Inl TypeError, []) | Some api \<Rightarrow> (api rq, [rq]))"

text \<open>\<^verbatim>\<open>openaiResponse.choices[0].message.content\<close>, as the string \<^verbatim>\<open>.trim()\<close> is called
  on: a TypeError when there is no first choice or no string in it.\<close>

definition first_content :: "chat_completion \<Rightarrow> string js" where
  "first_content choices =
     (case choices of [] \<Rightarrow> Inl TypeError | None # _ \<Rightarrow> Inl TypeError | Some s # _ \<Rightarrow> Inr s)"

text \<open>The first two statements of \<^verbatim>\<open>detectIntent\<close>: the label, and
  \<^verbatim>\<open>getClassifications(message).find(c => c.label === classifiedIntent)?.value || 0.5\<close>.\<close>

definition classified :: "classifier option \<Rightarrow> string \<Rightarrow> (string \<times> real) js" where
  "classified cl message =
     (case cl of
        None \<Rightarrow> Inl TypeError
      | Some c \<Rightarrow>
          andThen (classify c message) (\<lambda>classifiedIntent.
          andThen (getClassifications c message) (\<lambda>cs.
            Inr (classifiedIntent,
                 (case find (\<lambda>k. c_label k = classifiedIntent) cs of
                    None \<Rightarrow> 0.5
                  | Some k \<Rightarrow> if c_value k = 0 then 0.5 else c_value k)))))"

text \<open>The inner \<^verbatim>\<open>try\<close> block: the request and the reading of its answer.\<close>

definition openai_intent :: "ai_module \<Rightarrow> string \<Rightarrow> intent js \<times> chat_request list" where
  "openai_intent md message =
     (case create md (intent_request message) of
        (Inl e, sent) \<Rightarrow> (Inl e, sent)
      | (Inr openaiResponse, sent) \<Rightarrow>
          (andThen (first_content openaiResponse) (\<lambda>content.
             Inr \<lparr>i_name = toLowerCase (builtins md) (trim (builtins md) content),
                  i_confidence = 0.8,
                  i_source = Some ''openai''\<rparr>),
           sent))"

text \<open>The outer \<^verbatim>\<open>try\<close> block, with the requests sent to the external service.\<close>

definition detectIntent_try :: "AIService \<Rightarrow> ai_module \<Rightarrow> string \<Rightarrow> intent js \<times> chat_request list" where
  "detectIntent_try svc md message =
     (case classified (intentClassifier svc) message of
        Inl e \<Rightarrow> (Inl e, [])
      | Inr (classifiedIntent, confidence) \<Rightarrow>
          (let viaClassifier =
                 \<lparr>i_name = classifiedIntent, i_confidence = max confidence 0.3,
                  i_source = Some ''classifier''\<rparr>
           in if confidence < 0.6 \<and> truthy (OPENAI_API_KEY md) then
                (case openai_intent md message of
                   (Inl openaiError, sent) \<Rightarrow> (Inr viaClassifier, sent)
                 | (Inr viaOpenai, sent) \<Rightarrow> (Inr viaOpenai, sent))
              else (Inr viaClassifier, [])))"

definition detectIntent :: "AIService \<Rightarrow> ai_module \<Rightarrow> string \<Rightarrow> intent js \<times> chat_request list" where
  "detectIntent svc md message =
     (case detectIntent_try svc md message of
        (Inl e, sent) \<Rightarrow>
          (Inr \<lparr>i_name = ''unknown'', i_confidence = 0.1, i_source = Some ''fallback''\<rparr>, sent)
      | (Inr i, sent) \<Rightarrow> (Inr i, sent))"

subsection \<open>extractEntities\<close>

definition tagged :: "string \<Rightarrow> real \<Rightarrow> string list \<Rightarrow> entity list" where
  "tagged ty c vs = map (\<lambda>v. \<lparr>e_type = ty, e_value = v, e_confidence = c\<rparr>) vs"

definition extractEntities_try :: "AIService \<Rightarrow> string \<Rightarrow> entity list js" where
  "extractEntities_try svc message =
     (case entityExtractor svc of
        None \<Rightarrow> Inl TypeError
      | Some f \<Rightarrow>
          andThen (f message) (\<lambda>doc.
          andThen (people doc) (\<lambda>ps.
          andThen (places doc) (\<lambda>pl.
          andThen (organizations doc) (\<lambda>os.
          andThen (dates doc) (\<lambda>ds.
          andThen (numbers doc) (\<lambda>ns.
          andThen (urls doc) (\<lambda>us.
            Inr (tagged ''person'' 0.8 ps @ tagged ''place'' 0.8 pl
                 @ tagged ''organization'' 0.8 os @ tagged ''date'' 0.9 ds
                 @ tagged ''number'' 0.9 ns @ tagged ''url'' 0.9 us)))))))))"

definition extractEntities :: "AIService \<Rightarrow> string \<Rightarrow> entity list js" where
  "extractEntities svc message =
     (case extractEntities_try svc message of Inl e \<Rightarrow> Inr [] | Inr es \<Rightarrow> Inr es)"

subsection \<open>analyzeSentiment\<close>

definition analyzeSentiment_try :: "ai_module \<Rightarrow> string \<Rightarrow> string js" where
  "analyzeSentiment_try md message =
     andThen (sentiment_analyze md message) (\<lambda>score.
       if score > 2 then Inr ''positive''
       else if score < - 2 then Inr ''negative''
       else Inr ''neutral'')"

definition analyzeSentiment :: "ai_module \<Rightarrow> string \<Rightarrow> string js" where
  "analyzeSentiment md message =
     (case analyzeSentiment_try md message of Inl e \<Rightarrow> Inr ''neutral'' | Inr s \<Rightarrow> Inr s)"

text \<open>A module without credential whose analyzer answers every text with \<open>r\<close>; the
  built-ins are the ASCII ones.\<close>

definition scoring :: "real js \<Rightarrow> ai_module" where
  "scoring r =
     \<lparr>OPENAI_API_KEY = None, openai = None, sentiment_analyze = (\<lambda>message. r),
      free_getContext = None, builtins = ascii\<rparr>"

subsection \<open>generateResponse\<close>

text \<open>
  \<^verbatim>\<open>Math.random()\<close> gives a number \<open>r\<close> with \<open>0 \<le> r < 1\<close>. The functions that draw take a
  real \<open>u\<close> and read \<open>frac u\<close>, which is \<open>u\<close> itself on that range and lies in it for
  every \<open>u\<close>.
\<close>

definition Math_random :: "real \<Rightarrow> real" where
  "Math_random u = frac u"

text \<open>\<^verbatim>\<open>xs[Math.floor(Math.random() * xs.length)]\<close>: the index drawn, and the element
  there, \<^verbatim>\<open>undefined\<close> (\<open>None\<close>) when the array is empty.\<close>

definition drawn :: "real \<Rightarrow> nat \<Rightarrow> nat" where
  "drawn u n = nat \<lfloor>Math_random u * real n\<rfloor>"

definition pick :: "real \<Rightarrow> 'a list \<Rightarrow> 'a option" where
  "pick u xs = (if drawn u (length xs) < length xs then Some (xs ! drawn u (length xs)) else None)"

text \<open>\<^verbatim>\<open>[...new Set(xs)]\<close>: the distinct elements in the order of their first occurrence.\<close>

definition unique :: "'a list \<Rightarrow> 'a list" where
  "unique xs = fold (\<lambda>x acc. if x \<in> set acc then acc else acc @ [x]) xs []"

text \<open>\<^verbatim>\<open>xs.join(', ')\<close>.\<close>

fun join :: "string list \<Rightarrow> string" where
  "join [] = []"
| "join [x] = x"
| "join (x # y # ys) = x @ '', '' @ join (y # ys)"

text \<open>\<^verbatim>\<open>xs.slice(-n)\<close>: the last \<open>n\<close> elements.\<close>

definition lastN :: "nat \<Rightarrow> 'a list \<Rightarrow> 'a list" where
  "lastN n xs = drop (length xs - n) xs"

definition buildSystemPrompt :: "intent \<Rightarrow> entity list \<Rightarrow> string \<Rightarrow> conv_context \<Rightarrow> string" where
  "buildSystemPrompt intent entities sentiment context =
     ''You are a helpful, friendly, and engaging AI assistant. Respond to the user's message in a natural, conversational way that feels like talking to a knowledgeable friend.''
     @ (if i_name intent \<noteq> [] then '' The user's intent appears to be: '' @ i_name intent @ ''.'' else [])
     @ (if sentiment \<noteq> ''neutral''
        then '' The user's sentiment is '' @ sentiment @ '', so adjust your tone accordingly - be more enthusiastic for positive sentiment and more empathetic and supportive for negative sentiment.''
        else [])
     @ (if length entities > 0
        then '' The message contains these entities: ''
             @ join (map (\<lambda>e. e_type e @ '': '' @ e_value e) entities)
             @ ''. Use this information to provide more relevant and specific responses.''
        else [])
     @ (case conversationHistory context of
          None \<Rightarrow> []
        | Some h \<Rightarrow>
            if length h > 0
            then '' Consider the conversation context when responding. If the user is building on previous topics, acknowledge that and provide continuity.''
            else [])
     @ '' Keep your response concise (1-3 sentences), helpful, and engaging. Use a warm, friendly tone and occasionally add appropriate emojis to make the conversation more pleasant. Always aim to be genuinely helpful and show enthusiasm for assisting the user.''"

text \<open>The three steps of \<^verbatim>\<open>personalizeResponse\<close> that rewrite the text. (The step on
  \<^verbatim>\<open>userPreferences.language\<close> has an empty body. The intent name spliced into the
  replacement text is taken literally.)\<close>

definition toneFor :: "string \<Rightarrow> string \<Rightarrow> string" where
  "toneFor sentiment personalized =
     (if sentiment = ''positive'' then
        (if \<not> includesStr personalized smile \<and> \<not> includesStr personalized wave
            \<and> \<not> includesStr personalized star
         then replaceAllDots personalized (''! '' @ smile)
         else personalized)
      else if sentiment = ''negative'' then
        (if \<not> includesStr personalized ''I understand'' \<and> \<not> includesStr personalized ''I'm here''
         then replaceFinalDot personalized ''. I'm here to help you through this.''
         else personalized)
      else personalized)"

definition continuity :: "conv_context \<Rightarrow> string \<Rightarrow> string" where
  "continuity context personalized =
     (case conversationHistory context of
        None \<Rightarrow> personalized
      | Some h \<Rightarrow>
          if length h > 0 then
            (let recentTopics =
                   map (\<lambda>msg. i_name (t_intent msg))
                     (filter (\<lambda>msg. i_name (t_intent msg) \<noteq> []) (lastN 3 h));
                 uniqueTopics = unique recentTopics
             in if length recentTopics > 0 \<and> length uniqueTopics = 1
                then replaceFinalDot personalized
                       (''. I notice you're interested in '' @ hd uniqueTopics
                        @ '' - I'd be happy to explore that further with you!'')
                else personalized)
          else personalized)"

definition warmth :: "string \<Rightarrow> string" where
  "warmth personalized =
     (if \<not> includesStr personalized smile \<and> \<not> includesStr personalized wave
         \<and> \<not> includesStr personalized star \<and> \<not> includesStr personalized ''!''
      then (if endsWithDot personalized then butlast personalized @ ''! '' @ smile
            else personalized)
      else personalized)"

definition personalizeResponse :: "string \<Rightarrow> string \<Rightarrow> conv_context \<Rightarrow> string" where
  "personalizeResponse response sentiment context =
     warmth (continuity context (toneFor sentiment response))"

definition fallbacks :: "string list" where
  "fallbacks =
     [''I want to make sure I understand you correctly. Could you rephrase that or provide a bit more context?'',
      ''I'm here to help, but I need to understand better what you're looking for. Could you try explaining it differently?'',
      ''I'd love to assist you with that! To give you the most helpful response, could you provide a bit more detail?'',
      ''I'm still learning and want to make sure I get this right. Could you help me understand what you need by explaining it another way?'']"

definition generateFallbackResponse :: "intent \<Rightarrow> string \<Rightarrow> real \<Rightarrow> string" where
  "generateFallbackResponse intent sentiment u =
     (if i_name intent = ''question'' then
        ''I'd love to help with your question! To give you the best answer, could you provide a bit more context or rephrase it in a different way?''
      else if i_name intent = ''information_request'' then
        ''I'm here to help you find that information! Could you be more specific about what you're looking for?''
      else if i_name intent = ''task_request'' then
        ''I'm ready to help you with that task! Let me understand what you need - could you break it down into smaller steps?''
      else if i_name intent = ''learning'' then
        ''I'm excited to help you learn! To make this most helpful, could you tell me what you already know about this topic?''
      else if i_name intent = ''creative'' then
        ''I'd love to help with your creative project! Could you share more details about what you're working on?''
      else if sentiment = ''negative'' then
        ''I understand this might be frustrating. Let me try to help you in a different way. Could you explain what you need in simpler terms?''
      else fallbacks ! drawn u (length fallbacks))"

definition response_request :: "string \<Rightarrow> string \<Rightarrow> chat_request" where
  "response_request systemPrompt message =
     \<lparr>rq_model = ''gpt-3.5-turbo'', rq_system = systemPrompt, rq_user = message,
      rq_max_tokens = 150, rq_temperature = 0.7\<rparr>"

text \<open>Which \<^verbatim>\<open>return\<close> of \<^verbatim>\<open>generateResponse\<close> gave the text: the template one, the one
  after the external completion, the fallback one, or the one of the \<^verbatim>\<open>catch\<close>.\<close>

datatype response_path = TemplatePath | GenerativePath | FallbackPath | CatchPath

text \<open>The inner \<^verbatim>\<open>try\<close> block of \<^verbatim>\<open>generateResponse\<close>.\<close>

definition openai_response ::
  "ai_module \<Rightarrow> string \<Rightarrow> intent \<Rightarrow> entity list \<Rightarrow> string \<Rightarrow> conv_context
     \<Rightarrow> string js \<times> chat_request list" where
  "openai_response md message intent entities sentiment context =
     (case create md (response_request (buildSystemPrompt intent entities sentiment context) message) of
        (Inl e, sent) \<Rightarrow> (Inl e, sent)
      | (Inr openaiResponse, sent) \<Rightarrow>
          (andThen (first_content openaiResponse) (\<lambda>content.
             Inr (personalizeResponse (trim (builtins md) content) sentiment context)),
           sent))"

text \<open>The outer \<^verbatim>\<open>try\<close> block, with the \<^verbatim>\<open>return\<close> taken and the requests sent. In the
  template branch \<^verbatim>\<open>personalizeResponse\<close> throws a TypeError on \<^verbatim>\<open>undefined\<close>, which is
  what an empty template array gives.\<close>

definition generateResponse_try ::
  "AIService \<Rightarrow> ai_module \<Rightarrow> string \<Rightarrow> intent \<Rightarrow> entity list \<Rightarrow> string \<Rightarrow> conv_context \<Rightarrow> real
     \<Rightarrow> (response_path \<times> string) js \<times> chat_request list" where
  "generateResponse_try svc md message intent entities sentiment context u =
     (let templates = responseTemplates svc (i_name intent) in
      if templates \<noteq> None \<and> i_confidence intent > 0.7 then
        (case pick u (the templates) of
           None \<Rightarrow> (Inl TypeError, [])
         | Some randomTemplate \<Rightarrow>
             (Inr (TemplatePath, personalizeResponse randomTemplate sentiment context), []))
      else if truthy (OPENAI_API_KEY md) then
        (case openai_response md message intent entities sentiment context of
           (Inl openaiError, sent) \<Rightarrow>
             (Inr (FallbackPath, generateFallbackResponse intent sentiment u), sent)
         | (Inr response, sent) \<Rightarrow> (Inr (GenerativePath, response), sent))
      else (Inr (FallbackPath, generateFallbackResponse intent sentiment u), []))"

definition generateResponse_traced ::
  "AIService \<Rightarrow> ai_module \<Rightarrow> string \<Rightarrow> intent \<Rightarrow> entity list \<Rightarrow> string \<Rightarrow> conv_context \<Rightarrow> real
     \<Rightarrow> (response_path \<times> string) js \<times> chat_request list" where
  "generateResponse_traced svc md message intent entities sentiment context u =
     (case generateResponse_try svc md message intent entities sentiment context u of
        (Inl e, sent) \<Rightarrow>
          (Inr (CatchPath,
                ''I apologize, but I'm having trouble generating a response right now. Could you please try again?''),
           sent)
      | (Inr r, sent) \<Rightarrow> (Inr r, sent))"

text \<open>\<^verbatim>\<open>generateResponse\<close>: the text alone.\<close>

definition generateResponse ::
  "AIService \<Rightarrow> ai_module \<Rightarrow> string \<Rightarrow> intent \<Rightarrow> entity list \<Rightarrow> string \<Rightarrow> conv_context \<Rightarrow> real
     \<Rightarrow> string js \<times> chat_request list" where
  "generateResponse svc md message intent entities sentiment context u =
     (case generateResponse_traced svc md message intent entities sentiment context u of
        (Inl e, sent) \<Rightarrow> (Inl e, sent)
      | (Inr (path, response), sent) \<Rightarrow> (Inr response, sent))"

subsection \<open>Context\<close>

text \<open>Reading the context properties of a cached object: an object that is not a
  context has none of them.\<close>

definition asContext :: "cache_value \<Rightarrow> conv_context" where
  "asContext v =
     (case v of
        ContextV c \<Rightarrow> c
      | _ \<Rightarrow> \<lparr>conversationHistory = None, lastIntent = None, lastEntities = [],
              lastUpdated = None\<rparr>)"

definition contextKey :: "string \<Rightarrow> string \<Rightarrow> string" where
  "contextKey userId roomId = ''context:'' @ userId @ '':'' @ roomId"

text \<open>The method \<^verbatim>\<open>getContext\<close> of the class.\<close>

definition getContext :: "redis_client option \<Rightarrow> int \<Rightarrow> string \<Rightarrow> string \<Rightarrow> conv_context js" where
  "getContext redisClient now userId roomId =
     andThen (getCache redisClient now (contextKey userId roomId)) (\<lambda>context.
       case context of
         Some v \<Rightarrow> Inr (asContext v)
       | None \<Rightarrow>
           Inr \<lparr>conversationHistory = Some [], lastIntent = None, lastEntities = [],
                lastUpdated = None\<rparr>)"

text \<open>
  \<^verbatim>\<open>updateContext(userId, roomId, { lastIntent, lastEntities, conversationHistory })\<close>.
  Its second statement calls the free identifier \<^verbatim>\<open>getContext\<close>, not the method: a
  ReferenceError when nothing binds it.
\<close>

definition updateContext ::
  "ai_module \<Rightarrow> redis_client option \<Rightarrow> int \<Rightarrow> string \<Rightarrow> string \<Rightarrow> intent \<Rightarrow> entity list \<Rightarrow> turn list
     \<Rightarrow> unit js \<times> redis_client option" where
  "updateContext md redisClient now userId roomId intent entities history =
     (case free_getContext md of
        None \<Rightarrow> (Inl ReferenceError, redisClient)
      | Some g \<Rightarrow>
          (case g userId roomId of
             Inl e \<Rightarrow> (Inl e, redisClient)
           | Inr existingContext \<Rightarrow>
               (let updatedContext =
                      existingContext
                        \<lparr>lastIntent := Some intent, lastEntities := entities,
                         conversationHistory :=
                           Some (if length history > 20 then lastN 20 history else history),
                         lastUpdated := Some now\<rparr>
                in case setCache redisClient now (contextKey userId roomId)
                          (ContextV updatedContext) 86400 of
                     (Inl e, rc) \<Rightarrow> (Inl e, rc)
                   | (Inr b, rc) \<Rightarrow> (Inr (), rc))))"

definition storeLearningData :: "AIService \<Rightarrow> learning \<Rightarrow> AIService" where
  "storeLearningData svc d =
     (let pushed = learningData svc @ [d]
      in svc\<lparr>learningData := (if length pushed > 1000 then lastN 1000 pushed else pushed)\<rparr>)"

subsection \<open>processMessage\<close>

text \<open>What the pipeline works on: the service object, the cache client, and the
  requests sent to the external service so far.\<close>

record ai_state =
  service :: AIService
  redis :: "redis_client option"
  requests :: "chat_request list"

text \<open>
  What \<^verbatim>\<open>processMessage\<close> returns: a result object, or, when the object found in the
  cache is not a result, that object with \<^verbatim>\<open>responseTime\<close> and \<^verbatim>\<open>cached: true\<close> added.
\<close>

datatype reply = Result ai_result | Foreign cache_value int

text \<open>\<^verbatim>\<open>{ ...cachedResponse, responseTime, cached: true }\<close>.\<close>

definition spread :: "cache_value \<Rightarrow> int \<Rightarrow> reply" where
  "spread cachedResponse responseTime =
     (case cachedResponse of
        ResultV r \<Rightarrow> Result (r\<lparr>r_responseTime := responseTime, r_cached := True\<rparr>)
      | _ \<Rightarrow> Foreign cachedResponse responseTime)"

definition cacheKey :: "ai_module \<Rightarrow> string \<Rightarrow> string" where
  "cacheKey md message =
     ''ai_response:'' @ trim (builtins md) (toLowerCase (builtins md) message)"

text \<open>The result of the \<^verbatim>\<open>catch\<close> block.\<close>

definition fallback_result :: "int \<Rightarrow> ai_result" where
  "fallback_result responseTime =
     \<lparr>r_response = ''I apologize, but I'm having trouble processing your message right now. Could you please try rephrasing it?'',
      r_intent = \<lparr>i_name = ''fallback'', i_confidence = 0.1, i_source = None\<rparr>,
      r_entities = [],
      r_sentiment = ''neutral'',
      r_confidence = 0.1,
      r_responseTime = responseTime,
      r_cached = False\<rparr>"

text \<open>
  The part of the \<^verbatim>\<open>try\<close> block after the response is generated: context update,
  learning data, result, caching. \<open>finishTime\<close> is the clock there.
\<close>

definition conclude ::
  "ai_state \<Rightarrow> ai_module \<Rightarrow> string \<Rightarrow> string \<Rightarrow> string \<Rightarrow> int \<Rightarrow> int
     \<Rightarrow> intent \<Rightarrow> entity list \<Rightarrow> string \<Rightarrow> conv_context \<Rightarrow> string \<Rightarrow> reply js \<times> ai_state" where
  "conclude st md message userId roomId startTime finishTime intent entities sentiment context response =
     (case updateContext md (redis st) finishTime userId roomId intent entities
             ((case conversationHistory context of None \<Rightarrow> [] | Some h \<Rightarrow> h)
              @ [\<lparr>t_message = message, t_intent = intent, t_timestamp = finishTime\<rparr>]) of
        (Inl e, rc) \<Rightarrow> (Inl e, st\<lparr>redis := rc\<rparr>)
      | (Inr u, rc) \<Rightarrow>
          (let svc = storeLearningData (service st)
                       \<lparr>l_message = message, l_intent = intent, l_entities = entities,
                        l_sentiment = sentiment, l_response = response, l_userId = userId,
                        l_timestamp = finishTime\<rparr>;
               result = \<lparr>r_response = response, r_intent = intent, r_entities = entities,
                         r_sentiment = sentiment, r_confidence = i_confidence intent,
                         r_responseTime = finishTime - startTime, r_cached = False\<rparr>
           in case setCache rc finishTime (cacheKey md message) (ResultV result) 3600 of
                (Inl e, rc') \<Rightarrow> (Inl e, st\<lparr>service := svc, redis := rc'\<rparr>)
              | (Inr b, rc') \<Rightarrow> (Inr (Result result), st\<lparr>service := svc, redis := rc'\<rparr>)))"

text \<open>
  The \<^verbatim>\<open>try\<close> block of \<^verbatim>\<open>processMessage\<close>. \<open>startTime\<close> is the clock at entry, where the
  cache is read; \<open>finishTime\<close> the clock of every later reading; \<open>u\<close> feeds
  \<^verbatim>\<open>Math.random()\<close>.
\<close>

definition processMessage_try ::
  "ai_state \<Rightarrow> ai_module \<Rightarrow> string \<Rightarrow> string \<Rightarrow> string \<Rightarrow> int \<Rightarrow> int \<Rightarrow> real
     \<Rightarrow> reply js \<times> ai_state" where
  "processMessage_try st md message userId roomId startTime finishTime u =
     (case getCache (redis st) startTime (cacheKey md message) of
        Inl e \<Rightarrow> (Inl e, st)
      | Inr (Some cachedResponse) \<Rightarrow> (Inr (spread cachedResponse (finishTime - startTime)), st)
      | Inr None \<Rightarrow>
          (case detectIntent (service st) md message of
             (Inl e, sent) \<Rightarrow> (Inl e, st\<lparr>requests := requests st @ sent\<rparr>)
           | (Inr intent, sent) \<Rightarrow>
               (let st1 = st\<lparr>requests := requests st @ sent\<rparr> in
                case extractEntities (service st1) message of
                  Inl e \<Rightarrow> (Inl e, st1)
                | Inr entities \<Rightarrow>
                    (case analyzeSentiment md message of
                       Inl e \<Rightarrow> (Inl e, st1)
                     | Inr sentiment \<Rightarrow>
                         (case getContext (redis st1) startTime userId roomId of
                            Inl e \<Rightarrow> (Inl e, st1)
                          | Inr context \<Rightarrow>
                              (case generateResponse (service st1) md message intent entities
                                      sentiment context u of
                                 (Inl e, sent') \<Rightarrow> (Inl e, st1\<lparr>requests := requests st1 @ sent'\<rparr>)
                               | (Inr response, sent') \<Rightarrow>
                                   conclude (st1\<lparr>requests := requests st1 @ sent'\<rparr>) md message
                                     userId roomId startTime finishTime intent entities sentiment
                                     context response))))))"

definition processMessage ::
  "ai_state \<Rightarrow> ai_module \<Rightarrow> string \<Rightarrow> string \<Rightarrow> string \<Rightarrow> int \<Rightarrow> int \<Rightarrow> real
     \<Rightarrow> reply js \<times> ai_state" where
  "processMessage st md message userId roomId startTime finishTime u =
     (case processMessage_try st md message userId roomId startTime finishTime u of
        (Inl error, st') \<Rightarrow> (Inr (Result (fallback_result (finishTime - startTime))), st')
      | (Inr r, st') \<Rightarrow> (Inr r, st'))"

subsection \<open>Concrete collaborators\<close>

text \<open>A classifier whose \<^verbatim>\<open>classify\<close> throws on every text.\<close>

definition throwing :: classifier where
  "throwing =
     \<lparr>classify = (\<lambda>message. Inl (Error ''classify'')),
      getClassifications = (\<lambda>message. Inr [])\<rparr>"

text \<open>A classifier that gives every text the label \<open>l\<close> with value \<open>p\<close>.\<close>

definition always :: "string \<Rightarrow> real \<Rightarrow> classifier" where
  "always l p =
     \<lparr>classify = (\<lambda>message. Inr l),
      getClassifications = (\<lambda>message. Inr [\<lparr>c_label = l, c_value = p\<rparr>])\<rparr>"

text \<open>A tagger that finds nothing.\<close>

definition untagged :: "string \<Rightarrow> nlp_doc js" where
  "untagged message =
     Inr \<lparr>people = Inr [], places = Inr [], organizations = Inr [], dates = Inr [],
          numbers = Inr [], urls = Inr []\<rparr>"

text \<open>The service object after the constructor, with the classifier \<open>cl\<close>.\<close>

definition trained :: "classifier \<Rightarrow> AIService" where
  "trained cl =
     \<lparr>intentClassifier = Some cl, entityExtractor = Some untagged,
      responseTemplates = loadResponseTemplates, learningData = []\<rparr>"

text \<open>A module with the credential \<open>sk-test\<close> set, whose external service answers every
  request with \<open>answer\<close>, and whose analyzer scores every text 0.\<close>

definition with_openai :: "chat_completion js \<Rightarrow> ai_module" where
  "with_openai answer =
     \<lparr>OPENAI_API_KEY = Some ''sk-test'', openai = Some (\<lambda>rq. answer),
      sentiment_analyze = (\<lambda>message. Inr 0), free_getContext = None, builtins = ascii\<rparr>"

text \<open>A module whose credential was set after it loaded: the key is there, the client
  is still \<^verbatim>\<open>null\<close>.\<close>

definition late_key :: ai_module where
  "late_key =
     \<lparr>OPENAI_API_KEY = Some ''sk-test'', openai = None,
      sentiment_analyze = (\<lambda>message. Inr 0), free_getContext = None, builtins = ascii\<rparr>"

text \<open>A ready client with nothing stored, under a trained service.\<close>

definition fresh :: ai_state where
  "fresh =
     \<lparr>service = trained (always ''greeting'' 0.9),
      redis = Some \<lparr>isReady = True, failing = False, entries = Map.empty\<rparr>,
      requests = []\<rparr>"

section \<open>Conversations (models/Chat.js, ChatService)\<close>

subsection \<open>The schema and its hooks\<close>

text \<open>What the message schema accepts: the required strings are not empty, the numbers
  are within their bounds, the sentiment is one of the three labels.\<close>

definition valid_entity :: "entity \<Rightarrow> bool" where
  "valid_entity e = (e_type e \<noteq> [] \<and> e_value e \<noteq> [] \<and> 0 \<le> e_confidence e \<and> e_confidence e \<le> 1)"

definition valid_message :: "message \<Rightarrow> bool" where
  "valid_message m =
     (m_userId m \<noteq> [] \<and> m_message m \<noteq> [] \<and> m_response m \<noteq> [] \<and> m_intent m \<noteq> []
      \<and> list_all valid_entity (m_entities m)
      \<and> m_sentiment m \<in> {''positive'', ''negative'', ''neutral''}
      \<and> 0 \<le> m_confidence m \<and> m_confidence m \<le> 1)"

text \<open>\<^verbatim>\<open>feedback.rating\<close> has \<^verbatim>\<open>min: 1, max: 5\<close>; a missing rating passes.\<close>

definition valid_feedback :: "feedback \<Rightarrow> bool" where
  "valid_feedback f = (case f_rating f of None \<Rightarrow> True | Some r \<Rightarrow> 1 \<le> r \<and> r \<le> 5)"

text \<open>The \<^verbatim>\<open>trim: true\<close> setters of \<^verbatim>\<open>message\<close>, \<^verbatim>\<open>response\<close> and \<^verbatim>\<open>intent\<close>; \<open>rt\<close> are
  the string built-ins.\<close>

definition cast_message :: "js_strings \<Rightarrow> message \<Rightarrow> message" where
  "cast_message rt m =
     m\<lparr>m_message := trim rt (m_message m), m_response := trim rt (m_response m),
       m_intent := trim rt (m_intent m)\<rparr>"

text \<open>\<^verbatim>\<open>m.feedback && m.feedback.rating\<close>, and the rating of such a message.\<close>

definition rated :: "message \<Rightarrow> bool" where
  "rated m =
     (case m_feedback m of
        None \<Rightarrow> False
      | Some f \<Rightarrow> (case f_rating f of None \<Rightarrow> False | Some r \<Rightarrow> r \<noteq> 0))"

definition rating_of :: "message \<Rightarrow> real" where
  "rating_of m =
     (case m_feedback m of
        None \<Rightarrow> 0
      | Some f \<Rightarrow> (case f_rating f of None \<Rightarrow> 0 | Some r \<Rightarrow> r))"

text \<open>\<^verbatim>\<open>xs.reduce((a, b) => a + b, 0) / xs.length\<close>.\<close>

definition average :: "real list \<Rightarrow> real" where
  "average xs = foldl (+) 0 xs / real (length xs)"

text \<open>The \<^verbatim>\<open>pre('save')\<close> hook; \<open>now\<close> is \<^verbatim>\<open>new Date()\<close>.\<close>

definition preSave :: "int \<Rightarrow> chat \<Rightarrow> chat" where
  "preSave now c =
     (if length (messages c) > 0 then
        (let responseTimes = map m_responseTime (messages c);
             a = (analytics c)
                   \<lparr>totalMessages := length (messages c),
                    averageResponseTime := average responseTimes,
                    lastActivity := now\<rparr>;
             ratedMessages = filter rated (messages c)
         in c\<lparr>analytics :=
                (if length ratedMessages > 0
                 then a\<lparr>userSatisfaction :=
                          foldl (\<lambda>sum m. sum + rating_of m) 0 ratedMessages
                            / real (length ratedMessages)\<rparr>
                 else a)\<rparr>)
      else c)"

subsection \<open>The service and its stores\<close>

text \<open>An entry of the in-memory map \<^verbatim>\<open>activeChats\<close>.\<close>

record active_chat =
  a_participants :: "string list"
  a_lastActivity :: int

text \<open>
  What the chat service works on: the cache client, the Chat collection by room
  identifier, the role of each user of the User collection, and \<^verbatim>\<open>activeChats\<close>.
  Reads and writes of the two collections succeed: the only rejection of a save is the
  schema's.
\<close>

record chat_world =
  w_redis :: "redis_client option"
  chats :: "string \<rightharpoonup> chat"
  users :: "string \<rightharpoonup> string"
  activeChats :: "string \<rightharpoonup> active_chat"

text \<open>\<^verbatim>\<open>.populate('participants.userId', ...)\<close>: every participant's identifier is
  replaced by the user document it names, or by \<^verbatim>\<open>null\<close> when there is none.\<close>

definition populate :: "(string \<rightharpoonup> string) \<Rightarrow> chat \<Rightarrow> chat" where
  "populate us c =
     c\<lparr>participants :=
         map (\<lambda>p. p\<lparr>p_userId :=
                      (if us (ref_id (p_userId p)) = None then Missing (ref_id (p_userId p))
                       else UserDoc (ref_id (p_userId p)))\<rparr>)
           (participants c)\<rparr>"

text \<open>What a save writes for the participants: populating a path does not modify it, so
  the collection keeps the identifiers.\<close>

definition depopulate :: "chat \<Rightarrow> chat" where
  "depopulate c =
     c\<lparr>participants := map (\<lambda>p. p\<lparr>p_userId := Ident (ref_id (p_userId p))\<rparr>) (participants c)\<rparr>"

text \<open>\<^verbatim>\<open>chat.save()\<close> for the document of room \<open>r\<close>: the hook runs, the collection takes
  the document. The document after the hook is returned with the new stores.\<close>

definition save :: "chat_world \<Rightarrow> int \<Rightarrow> string \<Rightarrow> chat \<Rightarrow> chat \<times> chat_world" where
  "save w now r c =
     (let c' = preSave now c in (c', w\<lparr>chats := (chats w)(r \<mapsto> depopulate c')\<rparr>))"

text \<open>
  What \<^verbatim>\<open>getChat\<close> hands out: a document read from the collection and populated, with
  the methods of the model, or the object parsed from the cache, which has none of them.
\<close>

datatype chat_obj = Doc chat | Plain cache_value

definition chatKey :: "string \<Rightarrow> string" where
  "chatKey r = ''chat:'' @ r"

definition getChat_try :: "chat_world \<Rightarrow> int \<Rightarrow> string \<Rightarrow> chat_obj option js \<times> chat_world" where
  "getChat_try w now r =
     (case getCache (w_redis w) now (chatKey r) of
        Inl e \<Rightarrow> (Inl e, w)
      | Inr (Some v) \<Rightarrow> (Inr (Some (Plain v)), w)
      | Inr None \<Rightarrow>
          (case chats w r of
             None \<Rightarrow> (Inr None, w)
           | Some stored \<Rightarrow>
               (let c = populate (users w) stored in
                case setCache (w_redis w) now (chatKey r) (ChatV c) 3600 of
                  (Inl e, rc) \<Rightarrow> (Inl e, w\<lparr>w_redis := rc\<rparr>)
                | (Inr b, rc) \<Rightarrow> (Inr (Some (Doc c)), w\<lparr>w_redis := rc\<rparr>))))"

definition getChat :: "chat_world \<Rightarrow> int \<Rightarrow> string \<Rightarrow> chat_obj option js \<times> chat_world" where
  "getChat w now r =
     (case getChat_try w now r of
        (Inl e, w') \<Rightarrow> (Inr None, w')
      | (Inr c, w') \<Rightarrow> (Inr c, w'))"

text \<open>\<^verbatim>\<open>setCache(`chat:${roomId}`, chat, 3600)\<close> on the stores.\<close>

definition cacheChat :: "chat_world \<Rightarrow> int \<Rightarrow> string \<Rightarrow> chat \<Rightarrow> chat_world" where
  "cacheChat w now r c = w\<lparr>w_redis := snd (setCache (w_redis w) now (chatKey r) (ChatV c) 3600)\<rparr>"

subsection \<open>Comparing participants\<close>

text \<open>
  \<^verbatim>\<open>p.userId.toString() === userId.toString()\<close>, where \<open>userId\<close> is the identifier the caller
  passes. An identifier gives its own text. A user document gives the rendering of its
  fields (its parsed JSON gives \<^verbatim>\<open>[object Object]\<close>), which is not the text of an
  identifier. \<^verbatim>\<open>null\<close> has no \<^verbatim>\<open>toString\<close>: a TypeError.
\<close>

definition sameUser :: "user_ref \<Rightarrow> string \<Rightarrow> bool js" where
  "sameUser ref userId =
     (case ref of
        Ident i \<Rightarrow> Inr (i = userId)
      | UserDoc i \<Rightarrow> Inr False
      | Missing i \<Rightarrow> Inl TypeError)"

text \<open>\<^verbatim>\<open>xs.some(f)\<close> and \<^verbatim>\<open>xs.find(f)\<close> for a callback that may throw: the elements are
  tried in order, up to the first that satisfies it or throws.\<close>

fun someJS :: "('a \<Rightarrow> bool js) \<Rightarrow> 'a list \<Rightarrow> bool js" where
  "someJS f [] = Inr False"
| "someJS f (x # xs) =
     (case f x of Inl e \<Rightarrow> Inl e | Inr b \<Rightarrow> if b then Inr True else someJS f xs)"

fun findJS :: "('a \<Rightarrow> bool js) \<Rightarrow> 'a list \<Rightarrow> 'a option js" where
  "findJS f [] = Inr None"
| "findJS f (x # xs) =
     (case f x of Inl e \<Rightarrow> Inl e | Inr b \<Rightarrow> if b then Inr (Some x) else findJS f xs)"

subsection \<open>Model methods\<close>

text \<open>\<^verbatim>\<open>addMessage\<close>: push, then save. The pushed sub-document is cast and validated.\<close>

definition addMessage ::
  "js_strings \<Rightarrow> chat_world \<Rightarrow> int \<Rightarrow> string \<Rightarrow> chat \<Rightarrow> message \<Rightarrow> chat js \<times> chat_world" where
  "addMessage rt w now r c m =
     (if valid_message (cast_message rt m)
      then (case save w now r (c\<lparr>messages := messages c @ [cast_message rt m]\<rparr>) of
              (c', w') \<Rightarrow> (Inr c', w'))
      else (Inl (Error ''ValidationError''), w))"

text \<open>\<^verbatim>\<open>addParticipant\<close>: push unless \<^verbatim>\<open>find\<close> gives a participant for the user, then
  save.\<close>

definition addParticipant ::
  "chat_world \<Rightarrow> int \<Rightarrow> string \<Rightarrow> chat \<Rightarrow> string \<Rightarrow> string \<Rightarrow> chat js \<times> chat_world" where
  "addParticipant w now r c userId role =
     (case findJS (\<lambda>p. sameUser (p_userId p) userId) (participants c) of
        Inl e \<Rightarrow> (Inl e, w)
      | Inr existingParticipant \<Rightarrow>
          (case save w now r
                  (case existingParticipant of
                     None \<Rightarrow>
                       c\<lparr>participants :=
                           participants c
                           @ [\<lparr>p_userId = Ident userId, p_role = role, p_joinedAt = now,
                               p_leftAt = None\<rparr>]\<rparr>
                   | Some p \<Rightarrow> c) of
             (c', w') \<Rightarrow> (Inr c', w')))"

text \<open>\<^verbatim>\<open>participant.leftAt = new Date()\<close> on the participant \<^verbatim>\<open>find\<close> gave: the first
  one for the user.\<close>

fun leave :: "string \<Rightarrow> int \<Rightarrow> participant list \<Rightarrow> participant list" where
  "leave userId now [] = []"
| "leave userId now (p # ps) =
     (if sameUser (p_userId p) userId = Inr True then p\<lparr>p_leftAt := Some now\<rparr> # ps
      else p # leave userId now ps)"

definition removeParticipant ::
  "chat_world \<Rightarrow> int \<Rightarrow> string \<Rightarrow> chat \<Rightarrow> string \<Rightarrow> chat js \<times> chat_world" where
  "removeParticipant w now r c userId =
     (case findJS (\<lambda>p. sameUser (p_userId p) userId) (participants c) of
        Inl e \<Rightarrow> (Inl e, w)
      | Inr participant \<Rightarrow>
          (case save w now r
                  (case participant of
                     None \<Rightarrow> c
                   | Some p \<Rightarrow> c\<lparr>participants := leave userId now (participants c)\<rparr>) of
             (c', w') \<Rightarrow> (Inr c', w')))"

subsection \<open>Service operations\<close>

text \<open>Reading \<^verbatim>\<open>chat.status\<close> and \<^verbatim>\<open>chat.participants\<close> from a parsed object: an object
  that is not a chat has neither.\<close>

definition plain_chat :: "cache_value \<Rightarrow> chat option" where
  "plain_chat v = (case v of ChatV c \<Rightarrow> Some c | _ \<Rightarrow> None)"

text \<open>The tracking step of \<^verbatim>\<open>joinChat\<close>.\<close>

definition trackJoin :: "chat_world \<Rightarrow> int \<Rightarrow> string \<Rightarrow> string \<Rightarrow> chat_world" where
  "trackJoin w now r userId =
     (case activeChats w r of
        None \<Rightarrow> w
      | Some activeChat \<Rightarrow>
          w\<lparr>activeChats :=
               (activeChats w)
                 (r \<mapsto> \<lparr>a_participants =
                           (if userId \<in> set (a_participants activeChat)
                            then a_participants activeChat
                            else a_participants activeChat @ [userId]),
                         a_lastActivity = now\<rparr>)\<rparr>)"

text \<open>\<^verbatim>\<open>chat.participants.some(p => p.userId.toString() === userId.toString() &&
  !p.leftAt)\<close>.\<close>

definition present :: "string \<Rightarrow> participant list \<Rightarrow> bool js" where
  "present userId ps =
     someJS (\<lambda>p. andThen (sameUser (p_userId p) userId) (\<lambda>same. Inr (same \<and> p_leftAt p = None))) ps"

text \<open>
  \<^verbatim>\<open>joinChat(userId, roomId)\<close>. Its \<^verbatim>\<open>catch\<close> rethrows. On a parsed object the call of
  \<^verbatim>\<open>chat.addParticipant\<close> is a TypeError.
\<close>

definition joinChat :: "chat_world \<Rightarrow> int \<Rightarrow> string \<Rightarrow> string \<Rightarrow> chat_obj js \<times> chat_world" where
  "joinChat w now userId r =
     (case getChat w now r of
        (Inl e, w1) \<Rightarrow> (Inl e, w1)
      | (Inr None, w1) \<Rightarrow> (Inl (Error ''Chat not found''), w1)
      | (Inr (Some (Plain v)), w1) \<Rightarrow>
          (case plain_chat v of
             None \<Rightarrow> (Inl (Error ''Chat is not active''), w1)
           | Some c \<Rightarrow>
               if status c \<noteq> Active then (Inl (Error ''Chat is not active''), w1)
               else
                 (case present userId (participants c) of
                    Inl e \<Rightarrow> (Inl e, w1)
                  | Inr isParticipant \<Rightarrow>
                      if \<not> isParticipant then (Inl TypeError, w1)
                      else (Inr (Plain v), trackJoin w1 now r userId)))
      | (Inr (Some (Doc c)), w1) \<Rightarrow>
          if status c \<noteq> Active then (Inl (Error ''Chat is not active''), w1)
          else
            (case present userId (participants c) of
               Inl e \<Rightarrow> (Inl e, w1)
             | Inr isParticipant \<Rightarrow>
                 if \<not> isParticipant then
                   (case addParticipant w1 now r c userId ''user'' of
                      (Inl e, w2) \<Rightarrow> (Inl e, w2)
                    | (Inr c1, w2) \<Rightarrow>
                        (case save w2 now r c1 of
                           (c2, w3) \<Rightarrow>
                             (Inr (Doc c2), trackJoin (cacheChat w3 now r c2) now r userId)))
                 else (Inr (Doc c), trackJoin w1 now r userId)))"

text \<open>The argument of \<^verbatim>\<open>saveMessage\<close>. \<^verbatim>\<open>intent\<close> is an intent object or a string; the
  optional properties are \<open>None\<close> where missing.\<close>

datatype intent_arg = IntentObject intent | IntentString string

record message_data =
  d_userId :: string
  d_roomId :: string
  d_message :: string
  d_response :: string
  d_intent :: intent_arg
  d_entities :: "entity list option"
  d_sentiment :: "string option"
  d_confidence :: "real option"
  d_responseTime :: "real option"

text \<open>\<^verbatim>\<open>intent.name || intent\<close> as the schema's string: an object without a name is not
  one.\<close>

definition intent_label :: "intent_arg \<Rightarrow> string option" where
  "intent_label a =
     (case a of
        IntentObject i \<Rightarrow> if i_name i \<noteq> [] then Some (i_name i) else None
      | IntentString s \<Rightarrow> Some s)"

text \<open>The message object \<^verbatim>\<open>saveMessage\<close> builds; \<open>oid\<close> is the \<^verbatim>\<open>_id\<close> the sub-document
  gets when pushed. (\<^verbatim>\<open>metadata\<close> is not among the fields kept here.)\<close>

definition messageObj :: "nat \<Rightarrow> message_data \<Rightarrow> string \<Rightarrow> message" where
  "messageObj oid d label =
     \<lparr>m_id = oid,
      m_userId = d_userId d,
      m_message = d_message d,
      m_response = d_response d,
      m_intent = label,
      m_entities = (case d_entities d of None \<Rightarrow> [] | Some es \<Rightarrow> es),
      m_sentiment = (case d_sentiment d of None \<Rightarrow> ''neutral''
                     | Some s \<Rightarrow> if s = [] then ''neutral'' else s),
      m_confidence = (case d_confidence d of None \<Rightarrow> 0.5 | Some c \<Rightarrow> if c = 0 then 0.5 else c),
      m_responseTime = (case d_responseTime d of None \<Rightarrow> 0 | Some t \<Rightarrow> t),
      m_feedback = None\<rparr>"

definition trackActivity :: "chat_world \<Rightarrow> int \<Rightarrow> string \<Rightarrow> chat_world" where
  "trackActivity w now r =
     (case activeChats w r of
        None \<Rightarrow> w
      | Some activeChat \<Rightarrow>
          w\<lparr>activeChats := (activeChats w)(r \<mapsto> activeChat\<lparr>a_lastActivity := now\<rparr>)\<rparr>)"

text \<open>
  \<^verbatim>\<open>saveMessage(messageData)\<close>. On a parsed object \<^verbatim>\<open>chat.addMessage\<close> is a TypeError.
\<close>

definition saveMessage ::
  "js_strings \<Rightarrow> chat_world \<Rightarrow> int \<Rightarrow> nat \<Rightarrow> message_data \<Rightarrow> message js \<times> chat_world" where
  "saveMessage rt w now oid d =
     (case getChat w now (d_roomId d) of
        (Inl e, w1) \<Rightarrow> (Inl e, w1)
      | (Inr None, w1) \<Rightarrow> (Inl (Error ''Chat not found''), w1)
      | (Inr (Some (Plain v)), w1) \<Rightarrow> (Inl TypeError, w1)
      | (Inr (Some (Doc c)), w1) \<Rightarrow>
          (case intent_label (d_intent d) of
             None \<Rightarrow> (Inl (Error ''ValidationError''), w1)
           | Some label \<Rightarrow>
               (case addMessage rt w1 now (d_roomId d) c (messageObj oid d label) of
                  (Inl e, w2) \<Rightarrow> (Inl e, w2)
                | (Inr c1, w2) \<Rightarrow>
                    (let responseTimes = map m_responseTime (messages c1);
                         c2 = c1\<lparr>analytics :=
                                   (analytics c1)
                                     \<lparr>totalMessages := length (messages c1),
                                      lastActivity := now,
                                      averageResponseTime := average responseTimes\<rparr>\<rparr>
                     in case save w2 now (d_roomId d) c2 of
                          (c3, w3) \<Rightarrow>
                            (Inr (last (messages c3)),
                             trackActivity (cacheChat w3 now (d_roomId d) c3) now (d_roomId d))))))"

text \<open>\<^verbatim>\<open>chat.messages.id(messageId)\<close> followed by \<^verbatim>\<open>message.feedback = ...\<close>: the first
  message with the identifier gets the feedback.\<close>

fun setFeedback :: "nat \<Rightarrow> feedback \<Rightarrow> message list \<Rightarrow> message list" where
  "setFeedback messageId f [] = []"
| "setFeedback messageId f (m # ms) =
     (if m_id m = messageId then m\<lparr>m_feedback := Some f\<rparr> # ms
      else m # setFeedback messageId f ms)"

text \<open>\<^verbatim>\<open>updateChatAnalytics(chat)\<close>: the satisfaction mean, then a save.\<close>

definition updateChatAnalytics :: "chat_world \<Rightarrow> int \<Rightarrow> string \<Rightarrow> chat \<Rightarrow> chat_world" where
  "updateChatAnalytics w now r c =
     (let ratedMessages = filter rated (messages c);
          c1 = (if length ratedMessages > 0
                then c\<lparr>analytics :=
                         (analytics c)
                           \<lparr>userSatisfaction :=
                              foldl (\<lambda>sum m. sum + rating_of m) 0 ratedMessages
                                / real (length ratedMessages)\<rparr>\<rparr>
                else c)
      in snd (save w now r c1))"

text \<open>
  \<^verbatim>\<open>addMessageFeedback(roomId, messageId, feedback)\<close>, with \<open>rating\<close> and \<open>comment\<close> the two
  properties read from \<^verbatim>\<open>feedback\<close>. On a parsed object \<^verbatim>\<open>chat.messages.id\<close> is a
  TypeError. The rating is validated when the document is saved.
\<close>

definition addMessageFeedback ::
  "chat_world \<Rightarrow> int \<Rightarrow> string \<Rightarrow> nat \<Rightarrow> real option \<Rightarrow> string option \<Rightarrow> message js \<times> chat_world" where
  "addMessageFeedback w now r messageId rating comment =
     (case getChat w now r of
        (Inl e, w1) \<Rightarrow> (Inl e, w1)
      | (Inr None, w1) \<Rightarrow> (Inl (Error ''Chat not found''), w1)
      | (Inr (Some (Plain v)), w1) \<Rightarrow> (Inl TypeError, w1)
      | (Inr (Some (Doc c)), w1) \<Rightarrow>
          (case find (\<lambda>m. m_id m = messageId) (messages c) of
             None \<Rightarrow> (Inl (Error ''Message not found''), w1)
           | Some message \<Rightarrow>
               (let f = \<lparr>f_rating = rating, f_comment = comment, f_timestamp = now\<rparr> in
                if valid_feedback f then
                  (case save w1 now r (c\<lparr>messages := setFeedback messageId f (messages c)\<rparr>) of
                     (c1, w2) \<Rightarrow>
                       (Inr (message\<lparr>m_feedback := Some f\<rparr>),
                        updateChatAnalytics (cacheChat w2 now r c1) now r c1))
                else (Inl (Error ''ValidationError''), w1))))"

text \<open>\<^verbatim>\<open>chat.participants.some(p => p.userId.toString() === userId.toString())\<close>.\<close>

definition takesPart :: "string \<Rightarrow> participant list \<Rightarrow> bool js" where
  "takesPart userId ps = someJS (\<lambda>p. sameUser (p_userId p) userId) ps"

text \<open>
  \<^verbatim>\<open>endChat(roomId, userId)\<close>. On a parsed object \<^verbatim>\<open>chat.removeParticipant\<close> is a
  TypeError, and so is \<^verbatim>\<open>chat.participants.some\<close> when the object is not a chat.
\<close>

definition endChat :: "chat_world \<Rightarrow> int \<Rightarrow> string \<Rightarrow> string \<Rightarrow> chat_obj js \<times> chat_world" where
  "endChat w now r userId =
     (case getChat w now r of
        (Inl e, w1) \<Rightarrow> (Inl e, w1)
      | (Inr None, w1) \<Rightarrow> (Inl (Error ''Chat not found''), w1)
      | (Inr (Some (Plain v)), w1) \<Rightarrow>
          (case plain_chat v of
             None \<Rightarrow> (Inl TypeError, w1)
           | Some c \<Rightarrow>
               (case takesPart userId (participants c) of
                  Inl e \<Rightarrow> (Inl e, w1)
                | Inr isParticipant \<Rightarrow>
                    if \<not> isParticipant
                    then (Inl (Error ''User is not a participant in this chat''), w1)
                    else (Inl TypeError, w1)))
      | (Inr (Some (Doc c)), w1) \<Rightarrow>
          (case takesPart userId (participants c) of
             Inl e \<Rightarrow> (Inl e, w1)
           | Inr isParticipant \<Rightarrow>
               if \<not> isParticipant
               then (Inl (Error ''User is not a participant in this chat''), w1)
               else
                 (case removeParticipant w1 now r c userId of
                    (Inl e, w2) \<Rightarrow> (Inl e, w2)
                  | (Inr c1, w2) \<Rightarrow>
                      (let activeParticipants =
                             filter (\<lambda>p. p_leftAt p = None) (participants c1) in
                       case (if length activeParticipants = 0
                             then save w2 now r
                                    (c1\<lparr>status := Ended,
                                        analytics := (analytics c1)\<lparr>lastActivity := now\<rparr>\<rparr>)
                             else (c1, w2)) of
                         (c2, w3) \<Rightarrow>
                           (let w4 = (if status c2 = Ended
                                      then w3\<lparr>activeChats := (activeChats w3)(r := None)\<rparr>
                                      else w3)
                            in (Inr (Doc c2), cacheChat w4 now r c2))))))"

text \<open>
  \<^verbatim>\<open>archiveChat(roomId, userId)\<close>. On a parsed object \<^verbatim>\<open>chat.save\<close> is a TypeError.
\<close>

definition archiveChat :: "chat_world \<Rightarrow> int \<Rightarrow> string \<Rightarrow> string \<Rightarrow> chat_obj js \<times> chat_world" where
  "archiveChat w now r userId =
     (case getChat w now r of
        (Inl e, w1) \<Rightarrow> (Inl e, w1)
      | (Inr None, w1) \<Rightarrow> (Inl (Error ''Chat not found''), w1)
      | (Inr (Some chat), w1) \<Rightarrow>
          (case users w1 userId of
             None \<Rightarrow> (Inl (Error ''Insufficient permissions''), w1)
           | Some role \<Rightarrow>
               if role \<notin> {''admin'', ''moderator''}
               then (Inl (Error ''Insufficient permissions''), w1)
               else
                 (case chat of
                    Plain v \<Rightarrow> (Inl TypeError, w1)
                  | Doc c \<Rightarrow>
                      (case save w1 now r (c\<lparr>status := Archived\<rparr>) of
                         (c1, w2) \<Rightarrow>
                           (Inr (Doc c1),
                            w2\<lparr>activeChats := (activeChats w2)(r := None),
                               w_redis := snd (deleteCache (w_redis w2) (chatKey r))\<rparr>)))))"

text \<open>The query of \<^verbatim>\<open>cleanupInactiveChats\<close>: active, and last active more than 24 hours
  before \<open>now\<close>.\<close>

definition inactive :: "int \<Rightarrow> chat \<Rightarrow> bool" where
  "inactive now c =
     (status c = Active \<and> lastActivity (analytics c) < now - 24 * 60 * 60 * 1000)"

text \<open>
  \<^verbatim>\<open>cleanupInactiveChats()\<close>. The body of its loop touches the selected document and
  its entry in \<^verbatim>\<open>activeChats\<close> only, so the loop is given room by room: a selected
  document is paused and saved, and its room leaves \<^verbatim>\<open>activeChats\<close>. (The query does not
  populate.)
\<close>

definition cleanupInactiveChats :: "chat_world \<Rightarrow> int \<Rightarrow> chat_world" where
  "cleanupInactiveChats w now =
     w\<lparr>chats :=
         (\<lambda>r. case chats w r of
                 None \<Rightarrow> None
               | Some c \<Rightarrow>
                   Some (if inactive now c
                         then depopulate (preSave now (c\<lparr>status := Paused\<rparr>))
                         else c)),
       activeChats :=
         (\<lambda>r. case chats w r of
                 None \<Rightarrow> activeChats w r
               | Some c \<Rightarrow> if inactive now c then None else activeChats w r)\<rparr>"

subsection \<open>Sequences of operations\<close>

datatype chat_op =
    Join string string
  | SaveMessage nat message_data
  | Feedback string nat "real option" "string option"
  | EndChat string string
  | Archive string string
  | Cleanup

text \<open>The stores after an operation called at \<open>now\<close>, whether it returned or threw.\<close>

fun step :: "js_strings \<Rightarrow> chat_world \<Rightarrow> int \<Rightarrow> chat_op \<Rightarrow> chat_world" where
  "step rt w now (Join userId r) = snd (joinChat w now userId r)"
| "step rt w now (SaveMessage oid d) = snd (saveMessage rt w now oid d)"
| "step rt w now (Feedback r messageId rating comment) =
     snd (addMessageFeedback w now r messageId rating comment)"
| "step rt w now (EndChat r userId) = snd (endChat w now r userId)"
| "step rt w now (Archive r userId) = snd (archiveChat w now r userId)"
| "step rt w now Cleanup = cleanupInactiveChats w now"

fun run :: "js_strings \<Rightarrow> chat_world \<Rightarrow> (int \<times> chat_op) list \<Rightarrow> chat_world" where
  "run rt w [] = w"
| "run rt w ((now, op) # ops) = run rt (step rt w now op) ops"

text \<open>A conversation of room \<open>room1\<close> with the one participant \<open>user1\<close>, no message yet,
  last active at 0; no cache client; \<open>user1\<close> is a user, \<open>admin1\<close> an administrator.\<close>

definition chat1 :: chat where
  "chat1 =
     \<lparr>participants =
        [\<lparr>p_userId = Ident ''user1'', p_role = ''user'', p_joinedAt = 0, p_leftAt = None\<rparr>],
      messages = [],
      status = Active,
      analytics = \<lparr>totalMessages = 0, averageResponseTime = 0, userSatisfaction = 0,
                   lastActivity = 0\<rparr>\<rparr>"

definition world1 :: chat_world where
  "world1 =
     \<lparr>w_redis = None,
      chats = [''room1'' \<mapsto> chat1],
      users = [''user1'' \<mapsto> ''user'', ''admin1'' \<mapsto> ''admin''],
      activeChats = Map.empty\<rparr>"

text \<open>The message data of a turn with the given latency.\<close>

definition turn_data :: "real \<Rightarrow> message_data" where
  "turn_data t =
     \<lparr>d_userId = ''user1'', d_roomId = ''room1'', d_message = ''hello'', d_response = ''Hi there!'',
      d_intent = IntentObject \<lparr>i_name = ''greeting'', i_confidence = 0.9, i_source = Some ''classifier''\<rparr>,
      d_entities = Some [], d_sentiment = Some ''neutral'', d_confidence = Some 0.9,
      d_responseTime = Some t\<rparr>"


section \<open>Properties\<close>

subsection \<open>The cache accessors\<close>

text \<open>
  C10. \<^verbatim>\<open>getCache\<close>, \<^verbatim>\<open>setCache\<close> and \<^verbatim>\<open>deleteCache\<close> return for every client, key and
  value: none of them throws. When the client is absent, not ready or rejects its
  commands, and whenever the body of \<^verbatim>\<open>getCache\<close> throws (a rejected command, stored
  text that is not JSON), \<^verbatim>\<open>getCache\<close> returns \<^verbatim>\<open>null\<close>; when the client is absent, not
  ready or rejects its commands, \<^verbatim>\<open>setCache\<close> and \<^verbatim>\<open>deleteCache\<close> return \<^verbatim>\<open>false\<close> and
  leave the client as it was.
\<close>

theorem cache_accessors_total:
  "(\<exists>r. getCache redisClient now key = Inr r) \<and>
   (\<exists>b rc. setCache redisClient now key v expireTime = (Inr b, rc)) \<and>
   (\<exists>b rc. deleteCache redisClient key = (Inr b, rc)) \<and>
   (\<forall>e. getCache_try redisClient now key = Inl e \<longrightarrow> getCache redisClient now key = Inr None) \<and>
   (unavailable redisClient \<longrightarrow>
      getCache redisClient now key = Inr None \<and>
      setCache redisClient now key v expireTime = (Inr False, redisClient) \<and>
      deleteCache redisClient key = (Inr False, redisClient))"
  by (auto simp: getCache_def getCache_try_def setCache_def setCache_try_def deleteCache_def
        deleteCache_try_def unavailable_def redis_get_def redis_setEx_def redis_del_def
        JSON_stringify_def JSON_parse_def
      split: option.splits sum.splits prod.splits raw.splits)

theorem cache_accessors_total_witness:
  "unavailable (Some \<lparr>isReady = True, failing = True, entries = Map.empty\<rparr>) \<and>
   getCache_try (Some \<lparr>isReady = True, failing = True, entries = Map.empty\<rparr>) 0 ''chat:r1''
     = Inl (Error ''redis'') \<and>
   getCache (Some \<lparr>isReady = True, failing = True, entries = Map.empty\<rparr>) 0 ''chat:r1'' = Inr None \<and>
   setCache (Some \<lparr>isReady = True, failing = True, entries = Map.empty\<rparr>) 0 ''chat:r1''
       (ContextV \<lparr>conversationHistory = Some [], lastIntent = None, lastEntities = [],
                  lastUpdated = None\<rparr>) 3600
     = (Inr False, Some \<lparr>isReady = True, failing = True, entries = Map.empty\<rparr>) \<and>
   deleteCache (Some \<lparr>isReady = True, failing = True, entries = Map.empty\<rparr>) ''chat:r1''
     = (Inr False, Some \<lparr>isReady = True, failing = True, entries = Map.empty\<rparr>)"
  using cache_accessors_total
    [of "Some \<lparr>isReady = True, failing = True, entries = Map.empty\<rparr>" 0 "''chat:r1''"
        "ContextV \<lparr>conversationHistory = Some [], lastIntent = None, lastEntities = [],
                   lastUpdated = None\<rparr>" 3600]
  by (simp add: unavailable_def getCache_try_def redis_get_def)

subsection \<open>The sentiment scorer\<close>

text \<open>
  C3. \<^verbatim>\<open>analyzeSentiment\<close> is a function of the lexicon score alone: a score above 2
  gives "positive", a score below -2 gives "negative", every other score (2 and -2
  among them) gives "neutral"; when the analyzer throws, the answer is "neutral".
\<close>

theorem analyzeSentiment_thresholds:
  "(sentiment_analyze md message = Inr score \<longrightarrow>
      analyzeSentiment md message =
        Inr (if 2 < score then ''positive'' else if score < - 2 then ''negative'' else ''neutral'')) \<and>
   (sentiment_analyze md message = Inl e \<longrightarrow> analyzeSentiment md message = Inr ''neutral'')"
  by (simp add: analyzeSentiment_def analyzeSentiment_try_def andThen_def)

theorem analyzeSentiment_thresholds_witness:
  "analyzeSentiment (scoring (Inr 2)) ''fine'' = Inr ''neutral'' \<and>
   analyzeSentiment (scoring (Inr (- 2))) ''fine'' = Inr ''neutral'' \<and>
   analyzeSentiment (scoring (Inr 2.0001)) ''fine'' = Inr ''positive'' \<and>
   analyzeSentiment (scoring (Inr (- 2.0001))) ''fine'' = Inr ''negative'' \<and>
   analyzeSentiment (scoring (Inl TypeError)) ''fine'' = Inr ''neutral''"
  using
    analyzeSentiment_thresholds [of "scoring (Inr 2)" "''fine''" 2 TypeError]
    analyzeSentiment_thresholds [of "scoring (Inr (- 2))" "''fine''" "- 2" TypeError]
    analyzeSentiment_thresholds [of "scoring (Inr 2.0001)" "''fine''" "2.0001" TypeError]
    analyzeSentiment_thresholds [of "scoring (Inr (- 2.0001))" "''fine''" "- 2.0001" TypeError]
    analyzeSentiment_thresholds [of "scoring (Inl TypeError)" "''fine''" 0 TypeError]
  by (simp add: scoring_def)

subsection \<open>The intent detector\<close>

text \<open>
  C4. Whatever the classifier answers for a text (any label, any list of
  classifications), the confidence \<^verbatim>\<open>detectIntent\<close> reports is at least 0.3: the report is
  either the classifier's label at \<^verbatim>\<open>Math.max(value || 0.5, 0.3)\<close> with source
  "classifier", or a report of the external service at 0.8 with source "openai". Apart
  from that, when the classifier stage throws, the report is "unknown" at confidence 0.1
  with source "fallback", and no request went out.
\<close>

theorem detectIntent_confidence:
  "(intentClassifier svc = Some c \<and> classify c message = Inr label
      \<and> getClassifications c message = Inr cs \<longrightarrow>
      (\<exists>i sent. detectIntent svc md message = (Inr i, sent) \<and> 0.3 \<le> i_confidence i
         \<and> (i = \<lparr>i_name = label,
                   i_confidence =
                     max (case find (\<lambda>k. c_label k = label) cs of
                            None \<Rightarrow> 0.5
                          | Some k \<Rightarrow> if c_value k = 0 then 0.5 else c_value k) 0.3,
                   i_source = Some ''classifier''\<rparr>
              \<or> (i_confidence i = 0.8 \<and> i_source i = Some ''openai'')))) \<and>
   (classified (intentClassifier svc) message = Inl e \<longrightarrow>
      detectIntent svc md message
        = (Inr \<lparr>i_name = ''unknown'', i_confidence = 0.1, i_source = Some ''fallback''\<rparr>, []))"
proof (intro conjI impI)
  assume h: "intentClassifier svc = Some c \<and> classify c message = Inr label
      \<and> getClassifications c message = Inr cs"
  let ?p = "case find (\<lambda>k. c_label k = label) cs of
              None \<Rightarrow> 0.5 | Some k \<Rightarrow> if c_value k = 0 then 0.5 else c_value k"
  have cl: "classified (intentClassifier svc) message = Inr (label, ?p)"
    using h by (simp add: classified_def andThen_def)
  show "\<exists>i sent. detectIntent svc md message = (Inr i, sent) \<and> 0.3 \<le> i_confidence i
         \<and> (i = \<lparr>i_name = label, i_confidence = max ?p 0.3, i_source = Some ''classifier''\<rparr>
              \<or> (i_confidence i = 0.8 \<and> i_source i = Some ''openai''))"
    using cl
    by (auto simp: detectIntent_def detectIntent_try_def openai_intent_def create_def
          andThen_def Let_def
        split: prod.splits sum.splits option.splits if_splits)
next
  assume "classified (intentClassifier svc) message = Inl e"
  then show "detectIntent svc md message
        = (Inr \<lparr>i_name = ''unknown'', i_confidence = 0.1, i_source = Some ''fallback''\<rparr>, [])"
    by (simp add: detectIntent_def detectIntent_try_def)
qed

theorem detectIntent_confidence_witness:
  "intentClassifier (trained (always ''greeting'' 0.01)) = Some (always ''greeting'' 0.01) \<and>
   classify (always ''greeting'' 0.01) ''hello'' = Inr ''greeting'' \<and>
   getClassifications (always ''greeting'' 0.01) ''hello''
     = Inr [\<lparr>c_label = ''greeting'', c_value = 0.01\<rparr>] \<and>
   detectIntent (trained (always ''greeting'' 0.01)) (scoring (Inr 0)) ''hello''
     = (Inr \<lparr>i_name = ''greeting'', i_confidence = 0.3, i_source = Some ''classifier''\<rparr>, []) \<and>
   classified (intentClassifier (trained throwing)) ''hello'' = Inl (Error ''classify'') \<and>
   detectIntent (trained throwing) (scoring (Inr 0)) ''hello''
     = (Inr \<lparr>i_name = ''unknown'', i_confidence = 0.1, i_source = Some ''fallback''\<rparr>, [])"
proof -
  have a: "intentClassifier (trained (always ''greeting'' 0.01)) = Some (always ''greeting'' 0.01)"
    by (simp add: trained_def)
  have b: "classify (always ''greeting'' 0.01) ''hello'' = Inr ''greeting''"
    by (simp add: always_def)
  have c: "getClassifications (always ''greeting'' 0.01) ''hello''
             = Inr [\<lparr>c_label = ''greeting'', c_value = 0.01\<rparr>]"
    by (simp add: always_def)
  have d: "classified (intentClassifier (trained throwing)) ''hello'' = Inl (Error ''classify'')"
    by (simp add: classified_def trained_def throwing_def andThen_def)
  note t1 = detectIntent_confidence
      [of "trained (always ''greeting'' 0.01)" "always ''greeting'' 0.01" "''hello''"
          "''greeting''" "[\<lparr>c_label = ''greeting'', c_value = 0.01\<rparr>]" "scoring (Inr 0)"
          "Error ''classify''"]
  note t2 = detectIntent_confidence
      [of "trained throwing" "always ''greeting'' 0.01" "''hello''"
          "''greeting''" "[\<lparr>c_label = ''greeting'', c_value = 0.01\<rparr>]" "scoring (Inr 0)"
          "Error ''classify''"]
  from t1 [THEN conjunct1, THEN mp, OF conjI [OF a conjI [OF b c]]]
  obtain i sent where r: "detectIntent (trained (always ''greeting'' 0.01)) (scoring (Inr 0)) ''hello''
                          = (Inr i, sent)"
    and "0.3 \<le> i_confidence i" by blast
  have e: "detectIntent (trained (always ''greeting'' 0.01)) (scoring (Inr 0)) ''hello''
     = (Inr \<lparr>i_name = ''greeting'', i_confidence = 0.3, i_source = Some ''classifier''\<rparr>, [])"
    using r
    by (simp add: detectIntent_def detectIntent_try_def classified_def trained_def always_def
          andThen_def scoring_def truthy_def)
  from a b c d e t2 [THEN conjunct2, THEN mp, OF d] show ?thesis by blast
qed

text \<open>
  C6, as the claim states it: a malformed answer of the external service gives the
  classifier's result, and a configured credential means a request goes out. The
  classifier gives "greeting" at 0.2 and the credential is set. When the service answers
  with three spaces, the report is the empty label at confidence 0.8 with source
  "openai", not the classifier's "greeting". When the credential was set after the module
  loaded, the client is \<^verbatim>\<open>null\<close> and no request goes out.
\<close>

theorem detectIntent_escalation_counterexample:
  "detectIntent (trained (always ''greeting'' 0.2)) (with_openai (Inr [Some ''   ''])) ''hi there''
     = (Inr \<lparr>i_name = [], i_confidence = 0.8, i_source = Some ''openai''\<rparr>,
        [intent_request ''hi there'']) \<and>
   truthy (OPENAI_API_KEY late_key) \<and>
   detectIntent (trained (always ''greeting'' 0.2)) late_key ''hi there''
     = (Inr \<lparr>i_name = ''greeting'', i_confidence = 0.3, i_source = Some ''classifier''\<rparr>, [])"
proof -
  have blank: "map ascii_lower (ascii_trim ''   '') = []"
    by code_simp
  show ?thesis
    by (simp add: detectIntent_def detectIntent_try_def classified_def trained_def always_def
          andThen_def with_openai_def late_key_def truthy_def openai_intent_def create_def
          first_content_def ascii_def blank)
qed

text \<open>
  C6, amended. Let the classifier give the text a label whose value is below 0.6, with
  the credential set. If the client was built, \<^verbatim>\<open>detectIntent\<close> sends exactly one request:
  to \<^verbatim>\<open>gpt-3.5-turbo\<close>, with the system message that asks for one of the nine labels, the
  text as user message, at most 10 tokens, temperature 0.1. If the answer has a first
  choice holding a string, whatever the string, the report is that string, trimmed and
  lower-cased by the runtime, at confidence 0.8 with source "openai". If the request
  throws or the answer has no first choice holding a string, the report is the
  classifier's: its label, with the confidence \<^verbatim>\<open>Math.max(value || 0.5, 0.3)\<close> and source
  "classifier". If the client was not built, no request is sent and the report is the
  classifier's.
\<close>

theorem detectIntent_escalation:
  assumes "intentClassifier svc = Some c"
    and "classify c message = Inr label"
    and "getClassifications c message = Inr cs"
    and "find (\<lambda>k. c_label k = label) cs = Some k"
    and "c_value k < 0.6"
    and "truthy (OPENAI_API_KEY md)"
  shows
    "(openai md = Some api \<longrightarrow>
        snd (detectIntent svc md message)
          = [\<lparr>rq_model = ''gpt-3.5-turbo'',
              rq_system = ''You are an intent classifier. Analyze the user message and return only the intent category. Choose from: greeting, farewell, help, question, complaint, compliment, information_request, task_request, or other.'',
              rq_user = message, rq_max_tokens = 10, rq_temperature = 0.1\<rparr>] \<and>
        (andThen (api (intent_request message)) first_content = Inr content \<longrightarrow>
           fst (detectIntent svc md message)
             = Inr \<lparr>i_name = toLowerCase (builtins md) (trim (builtins md) content),
                    i_confidence = 0.8, i_source = Some ''openai''\<rparr>) \<and>
        (andThen (api (intent_request message)) first_content = Inl e \<longrightarrow>
           fst (detectIntent svc md message)
             = Inr \<lparr>i_name = label,
                    i_confidence = max (if c_value k = 0 then 0.5 else c_value k) 0.3,
                    i_source = Some ''classifier''\<rparr>)) \<and>
     (openai md = None \<longrightarrow>
        detectIntent svc md message
          = (Inr \<lparr>i_name = label,
                   i_confidence = max (if c_value k = 0 then 0.5 else c_value k) 0.3,
                   i_source = Some ''classifier''\<rparr>, []))"
proof -
  have cl: "classified (intentClassifier svc) message
              = Inr (label, if c_value k = 0 then 0.5 else c_value k)"
    using assms(1-4) by (simp add: classified_def andThen_def)
  have low: "(if c_value k = 0 then 0.5 else c_value k) < 0.6"
    using assms(5) by simp
  show ?thesis
    using cl low assms(6)
    by (auto simp: detectIntent_def detectIntent_try_def openai_intent_def create_def andThen_def
          Let_def intent_request_def
        split: sum.splits)
qed

theorem detectIntent_escalation_witness:
  "truthy (OPENAI_API_KEY (with_openai (Inr [Some '' Greeting '']))) \<and>
   snd (detectIntent (trained (always ''greeting'' 0.2)) (with_openai (Inr [Some '' Greeting ''])) ''hi there'')
     = [intent_request ''hi there''] \<and>
   fst (detectIntent (trained (always ''greeting'' 0.2)) (with_openai (Inr [Some '' Greeting ''])) ''hi there'')
     = Inr \<lparr>i_name = ''greeting'', i_confidence = 0.8, i_source = Some ''openai''\<rparr> \<and>
   fst (detectIntent (trained (always ''greeting'' 0.2)) (with_openai (Inl (Error ''timeout''))) ''hi there'')
     = Inr \<lparr>i_name = ''greeting'', i_confidence = 0.3, i_source = Some ''classifier''\<rparr> \<and>
   detectIntent (trained (always ''greeting'' 0.2)) late_key ''hi there''
     = (Inr \<lparr>i_name = ''greeting'', i_confidence = 0.3, i_source = Some ''classifier''\<rparr>, [])"
proof -
  let ?svc = "trained (always ''greeting'' 0.2)"
  have h1: "intentClassifier ?svc = Some (always ''greeting'' 0.2)" by (simp add: trained_def)
  have h2: "classify (always ''greeting'' 0.2) ''hi there'' = Inr ''greeting''"
    by (simp add: always_def)
  have h3: "getClassifications (always ''greeting'' 0.2) ''hi there''
              = Inr [\<lparr>c_label = ''greeting'', c_value = 0.2\<rparr>]"
    by (simp add: always_def)
  have h4: "find (\<lambda>k. c_label k = ''greeting'') [\<lparr>c_label = ''greeting'', c_value = 0.2\<rparr>]
              = Some \<lparr>c_label = ''greeting'', c_value = 0.2\<rparr>" by simp
  have h5: "c_value \<lparr>c_label = ''greeting'', c_value = 0.2\<rparr> < 0.6" by simp
  have k1: "truthy (OPENAI_API_KEY (with_openai (Inr [Some '' Greeting ''])))"
    by (simp add: with_openai_def truthy_def)
  have k2: "truthy (OPENAI_API_KEY (with_openai (Inl (Error ''timeout''))))"
    by (simp add: with_openai_def truthy_def)
  have k3: "truthy (OPENAI_API_KEY late_key)"
    by (simp add: late_key_def truthy_def)
  have o1: "openai (with_openai (Inr [Some '' Greeting ''])) = Some (\<lambda>rq. Inr [Some '' Greeting ''])"
    by (simp add: with_openai_def)
  have o2: "openai (with_openai (Inl (Error ''timeout''))) = Some (\<lambda>rq. Inl (Error ''timeout''))"
    by (simp add: with_openai_def)
  have o3: "openai late_key = None" by (simp add: late_key_def)
  have asc: "map ascii_lower (ascii_trim '' Greeting '') = ''greeting''"
    by code_simp
  have low: "toLowerCase (builtins (with_openai (Inr [Some '' Greeting ''])))
               (trim (builtins (with_openai (Inr [Some '' Greeting '']))) '' Greeting '')
             = ''greeting''"
    by (simp add: with_openai_def ascii_def asc)
  note ok = detectIntent_escalation [OF h1 h2 h3 h4 h5 k1,
      of "\<lambda>rq. Inr [Some '' Greeting '']" "'' Greeting ''" TypeError]
  note ko = detectIntent_escalation [OF h1 h2 h3 h4 h5 k2,
      of "\<lambda>rq. Inl (Error ''timeout'')" "[]" "Error ''timeout''"]
  note late = detectIntent_escalation [OF h1 h2 h3 h4 h5 k3,
      of "\<lambda>rq. Inl (Error ''timeout'')" "[]" "Error ''timeout''"]
  from ok [THEN conjunct1, THEN mp, OF o1] ko [THEN conjunct1, THEN mp, OF o2]
    late [THEN conjunct2, THEN mp, OF o3] k1 low
  show ?thesis
    by (simp add: andThen_def first_content_def intent_request_def)
qed

subsection \<open>The response generator\<close>

lemma Math_random_range: "0 \<le> Math_random u \<and> Math_random u < 1"
  by (simp add: Math_random_def frac_lt_1)

lemma drawn_less: "0 < n \<Longrightarrow> drawn u n < n"
proof -
  assume n: "0 < n"
  have "Math_random u * real n < 1 * real n"
    using Math_random_range [of u] n by (intro mult_strict_right_mono) auto
  then have "\<lfloor>Math_random u * real n\<rfloor> < int n"
    by (simp add: floor_less_iff)
  moreover have "0 \<le> Math_random u * real n"
    using Math_random_range [of u] by simp
  ultimately show ?thesis
    unfolding drawn_def by (simp add: nat_less_iff)
qed

lemma drawn_eq_iff:
  assumes "0 < n"
  shows "drawn u n = j \<longleftrightarrow>
           real j / real n \<le> Math_random u \<and> Math_random u < real (j + 1) / real n"
proof -
  have nn: "0 \<le> Math_random u * real n"
    using Math_random_range [of u] by simp
  then have "0 \<le> \<lfloor>Math_random u * real n\<rfloor>" by simp
  then have "drawn u n = j \<longleftrightarrow> \<lfloor>Math_random u * real n\<rfloor> = int j"
    unfolding drawn_def by auto
  also have "\<dots> \<longleftrightarrow> real j \<le> Math_random u * real n \<and> Math_random u * real n < real j + 1"
    by (auto simp: floor_eq_iff)
  also have "\<dots> \<longleftrightarrow> real j / real n \<le> Math_random u \<and> Math_random u < real (j + 1) / real n"
    using assms by (simp add: pos_divide_le_eq pos_less_divide_eq add.commute)
  finally show ?thesis .
qed

lemma loaded_nonempty: "loadResponseTemplates name = Some ts \<Longrightarrow> ts \<noteq> []"
  by (auto simp: loadResponseTemplates_def templates_greeting_def templates_farewell_def
        templates_help_def templates_question_def templates_complaint_def
        templates_compliment_def templates_information_request_def templates_task_request_def
        templates_learning_def templates_creative_def
      split: if_splits)

text \<open>
  C5. With the templates the constructor loads: if the intent's name has a template
  set \<open>ts\<close> and its confidence is above 0.7, \<^verbatim>\<open>generateResponse\<close> takes the template
  \<^verbatim>\<open>return\<close>, with the template at the drawn index as the text it personalizes; the drawn
  index is within the set, and it is \<open>j\<close> exactly when \<^verbatim>\<open>Math.random()\<close> falls in
  \<open>[j / n, (j + 1) / n)\<close> where \<open>n\<close> is the size of the set: every template has an
  interval of the same length. Conversely the template \<^verbatim>\<open>return\<close> is taken only for an
  intent that has a template set and a confidence above 0.7.
\<close>

theorem generateResponse_template_path:
  assumes "responseTemplates svc = loadResponseTemplates"
  shows
    "(loadResponseTemplates (i_name intent) = Some ts \<and> 0.7 < i_confidence intent \<longrightarrow>
        drawn u (length ts) < length ts \<and>
        generateResponse_traced svc md message intent entities sentiment context u
          = (Inr (TemplatePath,
                  personalizeResponse (ts ! drawn u (length ts)) sentiment context), []) \<and>
        (\<forall>j. drawn u (length ts) = j \<longleftrightarrow>
               real j / real (length ts) \<le> Math_random u \<and>
               Math_random u < real (j + 1) / real (length ts))) \<and>
     (generateResponse_traced svc md message intent entities sentiment context u
        = (Inr (TemplatePath, response), sent) \<longrightarrow>
        (\<exists>ts'. loadResponseTemplates (i_name intent) = Some ts') \<and> 0.7 < i_confidence intent)"
proof (intro conjI impI)
  assume h: "loadResponseTemplates (i_name intent) = Some ts \<and> 0.7 < i_confidence intent"
  then have ne: "0 < length ts" using loaded_nonempty by auto
  show lt: "drawn u (length ts) < length ts" using ne by (rule drawn_less)
  show "generateResponse_traced svc md message intent entities sentiment context u
          = (Inr (TemplatePath,
                  personalizeResponse (ts ! drawn u (length ts)) sentiment context), [])"
    using h lt assms by (simp add: generateResponse_traced_def generateResponse_try_def pick_def)
  show "\<forall>j. drawn u (length ts) = j \<longleftrightarrow>
               real j / real (length ts) \<le> Math_random u \<and>
               Math_random u < real (j + 1) / real (length ts)"
    using drawn_eq_iff [OF ne] by blast
next
  assume "generateResponse_traced svc md message intent entities sentiment context u
        = (Inr (TemplatePath, response), sent)"
  then show "\<exists>ts'. loadResponseTemplates (i_name intent) = Some ts'"
    using assms
    by (auto simp: generateResponse_traced_def generateResponse_try_def Let_def
        split: if_splits option.splits prod.splits sum.splits)
next
  assume "generateResponse_traced svc md message intent entities sentiment context u
        = (Inr (TemplatePath, response), sent)"
  then show "0.7 < i_confidence intent"
    by (auto simp: generateResponse_traced_def generateResponse_try_def Let_def
        split: if_splits option.splits prod.splits sum.splits)
qed

theorem generateResponse_template_path_witness:
  "responseTemplates (trained (always ''greeting'' 0.9)) = loadResponseTemplates \<and>
   loadResponseTemplates (i_name \<lparr>i_name = ''greeting'', i_confidence = 0.9, i_source = Some ''classifier''\<rparr>)
     = Some templates_greeting \<and>
   0.7 < i_confidence \<lparr>i_name = ''greeting'', i_confidence = 0.9, i_source = Some ''classifier''\<rparr> \<and>
   drawn 0.5 (length templates_greeting) = 2 \<and>
   generateResponse_traced (trained (always ''greeting'' 0.9)) (scoring (Inr 0)) ''hello''
       \<lparr>i_name = ''greeting'', i_confidence = 0.9, i_source = Some ''classifier''\<rparr> [] ''neutral''
       \<lparr>conversationHistory = Some [], lastIntent = None, lastEntities = [], lastUpdated = None\<rparr> 0.5
     = (Inr (TemplatePath,
             personalizeResponse (templates_greeting ! 2) ''neutral''
               \<lparr>conversationHistory = Some [], lastIntent = None, lastEntities = [],
                lastUpdated = None\<rparr>), [])"
proof -
  have a: "responseTemplates (trained (always ''greeting'' 0.9)) = loadResponseTemplates"
    by (simp add: trained_def)
  have b: "loadResponseTemplates (i_name \<lparr>i_name = ''greeting'', i_confidence = 0.9, i_source = Some ''classifier''\<rparr>)
     = Some templates_greeting"
    by (simp add: loadResponseTemplates_def)
  have c: "0.7 < i_confidence \<lparr>i_name = ''greeting'', i_confidence = 0.9, i_source = Some ''classifier''\<rparr>"
    by simp
  have d: "drawn 0.5 (length templates_greeting) = 2"
    by (simp add: templates_greeting_def drawn_def Math_random_def frac_def)
  have e: "generateResponse_traced (trained (always ''greeting'' 0.9)) (scoring (Inr 0)) ''hello''
       \<lparr>i_name = ''greeting'', i_confidence = 0.9, i_source = Some ''classifier''\<rparr> [] ''neutral''
       \<lparr>conversationHistory = Some [], lastIntent = None, lastEntities = [], lastUpdated = None\<rparr> 0.5
     = (Inr (TemplatePath,
             personalizeResponse (templates_greeting ! drawn 0.5 (length templates_greeting)) ''neutral''
               \<lparr>conversationHistory = Some [], lastIntent = None, lastEntities = [],
                lastUpdated = None\<rparr>), [])"
    using generateResponse_template_path [OF a, of
      "\<lparr>i_name = ''greeting'', i_confidence = 0.9, i_source = Some ''classifier''\<rparr>"
      templates_greeting "0.5" "scoring (Inr 0)" "''hello''" "[]" "''neutral''"
      "\<lparr>conversationHistory = Some [], lastIntent = None, lastEntities = [], lastUpdated = None\<rparr>"
      "[]" "[]"] b c
    by blast
  show ?thesis
    using a b c d e [unfolded d] by blast
qed

subsection \<open>The message pipeline\<close>

lemma getCache_returns: "\<exists>r. getCache redisClient now key = Inr r"
  by (simp add: getCache_def split: sum.splits)

lemma setCache_returns: "\<exists>b rc. setCache redisClient now key v expireTime = (Inr b, rc)"
  by (cases "setCache_try redisClient now key v expireTime")
    (auto simp: setCache_def split: sum.splits)

lemma detectIntent_returns: "\<exists>i sent. detectIntent svc md message = (Inr i, sent)"
  by (simp add: detectIntent_def split: sum.splits prod.splits)

lemma extractEntities_returns: "\<exists>es. extractEntities svc message = Inr es"
  by (simp add: extractEntities_def split: sum.splits)

lemma analyzeSentiment_returns: "\<exists>s. analyzeSentiment md message = Inr s"
  by (simp add: analyzeSentiment_def split: sum.splits)

lemma getContext_returns: "\<exists>c. getContext redisClient now userId roomId = Inr c"
  using getCache_returns [of redisClient now "contextKey userId roomId"]
  by (auto simp: getContext_def andThen_def split: option.splits)

lemma generateResponse_returns:
  "\<exists>r sent. generateResponse svc md message intent entities sentiment context u = (Inr r, sent)"
  by (auto simp: generateResponse_def generateResponse_traced_def split: sum.splits prod.splits)

lemma processMessage_returns:
  "\<exists>r st'. processMessage st md message userId roomId startTime finishTime u = (Inr r, st')"
  by (simp add: processMessage_def split: sum.splits prod.splits)

text \<open>With \<^verbatim>\<open>getContext\<close> unbound, the context update throws and leaves the client alone.\<close>

lemma conclude_unbound:
  "free_getContext md = None \<Longrightarrow>
     conclude st md message userId roomId startTime finishTime intent entities sentiment context response
       = (Inl ReferenceError, st)"
  by (simp add: conclude_def updateContext_def)

text \<open>A miss in the cache, with \<^verbatim>\<open>getContext\<close> unbound: the \<^verbatim>\<open>try\<close> block throws the
  ReferenceError, having changed nothing but the list of requests sent.\<close>

lemma miss_throws:
  assumes "free_getContext md = None"
    and "getCache (redis st) startTime (cacheKey md message) = Inr None"
  shows "\<exists>sent. processMessage_try st md message userId roomId startTime finishTime u
           = (Inl ReferenceError, st\<lparr>requests := requests st @ sent\<rparr>)"
proof -
  obtain intent sent1 where d: "detectIntent (service st) md message = (Inr intent, sent1)"
    using detectIntent_returns by blast
  obtain es where e: "extractEntities (service st) message = Inr es"
    using extractEntities_returns by blast
  obtain s where a: "analyzeSentiment md message = Inr s"
    using analyzeSentiment_returns by blast
  obtain c where g: "getContext (redis st) startTime userId roomId = Inr c"
    using getContext_returns by blast
  obtain r sent2 where gr: "generateResponse (service st) md message intent es s c u = (Inr r, sent2)"
    using generateResponse_returns by blast
  show ?thesis
    using assms d e a g gr
    by (auto simp: processMessage_try_def conclude_unbound intro: exI [of _ "sent1 @ sent2"])
qed

lemma miss_fallback:
  assumes "free_getContext md = None"
    and "getCache (redis st) startTime (cacheKey md message) = Inr None"
  shows "\<exists>sent. processMessage st md message userId roomId startTime finishTime u
           = (Inr (Result (fallback_result (finishTime - startTime))),
              st\<lparr>requests := requests st @ sent\<rparr>)"
  using miss_throws [OF assms, of userId roomId finishTime u]
  by (auto simp: processMessage_def)

lemma fresh_miss: "getCache (redis fresh) now key = Inr None"
  by (simp add: fresh_def getCache_def getCache_try_def redis_get_def)

text \<open>
  C1. \<^verbatim>\<open>processMessage\<close> returns for every state, module, text, user, room, clock and
  draw: it never throws. Whenever its \<^verbatim>\<open>try\<close> block throws, it returns the fallback
  result: the apology as response, the intent "fallback" at confidence 0.1, no entities,
  and the sentiment "neutral".
\<close>

theorem processMessage_never_throws:
  "(\<exists>r st'. processMessage st md message userId roomId startTime finishTime u = (Inr r, st')) \<and>
   (fst (processMessage_try st md message userId roomId startTime finishTime u) = Inl e \<longrightarrow>
      fst (processMessage st md message userId roomId startTime finishTime u)
        = Inr (Result (fallback_result (finishTime - startTime)))) \<and>
   r_response (fallback_result t)
     = ''I apologize, but I'm having trouble processing your message right now. Could you please try rephrasing it?'' \<and>
   i_name (r_intent (fallback_result t)) = ''fallback'' \<and>
   i_confidence (r_intent (fallback_result t)) = 0.1 \<and>
   r_entities (fallback_result t) = [] \<and>
   r_sentiment (fallback_result t) = ''neutral''"
  by (auto simp: processMessage_def fallback_result_def split: sum.splits prod.splits)

theorem processMessage_never_throws_witness:
  "fst (processMessage_try fresh (scoring (Inr 0)) ''hello'' ''u1'' ''r1'' 0 5 0) = Inl ReferenceError \<and>
   fst (processMessage fresh (scoring (Inr 0)) ''hello'' ''u1'' ''r1'' 0 5 0)
     = Inr (Result (fallback_result 5))"
proof -
  have unbound: "free_getContext (scoring (Inr 0)) = None"
    by (simp add: scoring_def)
  have t: "fst (processMessage_try fresh (scoring (Inr 0)) ''hello'' ''u1'' ''r1'' 0 5 0)
             = Inl ReferenceError"
    using miss_throws [where st = fresh and md = "scoring (Inr 0)" and startTime = 0
        and message = "''hello''" and userId = "''u1''" and roomId = "''r1''" and finishTime = 5
        and u = 0, OF unbound fresh_miss]
    by auto
  from t processMessage_never_throws
         [of fresh "scoring (Inr 0)" "''hello''" "''u1''" "''r1''" 0 5 0 ReferenceError 0]
  show ?thesis by simp
qed

lemma fresh_sends_nothing:
  "snd (detectIntent (service fresh) (scoring (Inr 0)) message) = [] \<and>
   snd (generateResponse (service fresh) (scoring (Inr 0)) message intent entities sentiment context u) = []"
  by (auto simp: detectIntent_def detectIntent_try_def generateResponse_def
        generateResponse_traced_def generateResponse_try_def scoring_def truthy_def Let_def
      split: sum.splits prod.splits option.splits)

lemma fresh_fallback:
  "processMessage fresh (scoring (Inr 0)) message userId roomId startTime finishTime u
     = (Inr (Result (fallback_result (finishTime - startTime))), fresh)"
proof -
  let ?md = "scoring (Inr 0)"
  have unbound: "free_getContext ?md = None" by (simp add: scoring_def)
  obtain intent sent1 where d: "detectIntent (service fresh) ?md message = (Inr intent, sent1)"
    using detectIntent_returns by blast
  obtain es where e: "extractEntities (service fresh) message = Inr es"
    using extractEntities_returns by blast
  obtain s where a: "analyzeSentiment ?md message = Inr s"
    using analyzeSentiment_returns by blast
  obtain c where g: "getContext (redis fresh) startTime userId roomId = Inr c"
    using getContext_returns by blast
  obtain r sent2 where gr: "generateResponse (service fresh) ?md message intent es s c u = (Inr r, sent2)"
    using generateResponse_returns by blast
  have s1: "sent1 = []" using fresh_sends_nothing [of message] d by simp
  have s2: "sent2 = []" using fresh_sends_nothing [of message intent es s c u] gr by simp
  show ?thesis
    using d e a g gr s1 s2 unbound fresh_miss [of startTime "cacheKey (scoring (Inr 0)) message"]
    by (simp add: processMessage_def processMessage_try_def conclude_unbound)
qed

text \<open>
  C2, on the code. The module is as written, the client is ready and stores nothing,
  the service is trained. The first call for "hello" ends in the fallback result and
  leaves the state as it was: nothing is cached. The second call, one second later, ends
  in the fallback result too, whose \<^verbatim>\<open>cached\<close> is \<^verbatim>\<open>false\<close>.
\<close>

theorem processMessage_repeat_not_cached:
  "as_written (scoring (Inr 0)) \<and>
   processMessage fresh (scoring (Inr 0)) ''hello'' ''u1'' ''r1'' 0 5 0
     = (Inr (Result (fallback_result 5)), fresh) \<and>
   processMessage fresh (scoring (Inr 0)) ''hello'' ''u1'' ''r1'' 1000 1002 0
     = (Inr (Result (fallback_result 2)), fresh) \<and>
   r_cached (fallback_result 2) = False"
  using fresh_fallback [of "''hello''" "''u1''" "''r1''" 0 5 0]
    fresh_fallback [of "''hello''" "''u1''" "''r1''" 1000 1002 0]
  by (simp add: as_written_def module_bindings_def scoring_def fallback_result_def)

subsection \<open>Conversations\<close>

lemma foldl_plus: "foldl (+) a xs = a + sum_list (xs :: real list)"
  by (induction xs arbitrary: a) (simp_all add: add.assoc)

lemma average_mean: "average xs = sum_list xs / real (length xs)"
  by (simp add: average_def foldl_plus)

lemma preSave_keeps [simp]:
  "messages (preSave now c) = messages c"
  "status (preSave now c) = status c"
  "participants (preSave now c) = participants c"
  by (simp_all add: preSave_def Let_def)

lemma preSave_average:
  "messages c \<noteq> [] \<Longrightarrow>
     averageResponseTime (analytics (preSave now c)) = average (map m_responseTime (messages c))"
  by (simp add: preSave_def Let_def)

lemma depopulate_keeps [simp]:
  "messages (depopulate c) = messages c"
  "status (depopulate c) = status c"
  "analytics (depopulate c) = analytics c"
  by (simp_all add: depopulate_def)

lemma populate_keeps [simp]:
  "messages (populate us c) = messages c"
  "status (populate us c) = status c"
  "analytics (populate us c) = analytics c"
  by (simp_all add: populate_def)

lemma save_result:
  "save w now r c = (preSave now c, w\<lparr>chats := (chats w)(r \<mapsto> depopulate (preSave now c))\<rparr>)"
  by (simp add: save_def Let_def)

lemma cacheChat_keeps [simp]:
  "chats (cacheChat w now r c) = chats w"
  "users (cacheChat w now r c) = users w"
  "activeChats (cacheChat w now r c) = activeChats w"
  by (simp_all add: cacheChat_def)

lemma trackJoin_keeps [simp]: "chats (trackJoin w now r u) = chats w"
  by (simp add: trackJoin_def split: option.splits)

lemma trackActivity_keeps [simp]: "chats (trackActivity w now r) = chats w"
  by (simp add: trackActivity_def split: option.splits)


lemma getChat_result:
  "getChat w now r = (res, w1) \<Longrightarrow>
     chats w1 = chats w \<and> users w1 = users w \<and> activeChats w1 = activeChats w \<and>
     (\<exists>x. res = Inr x \<and>
        (\<forall>c. x = Some (Doc c) \<longrightarrow> (\<exists>stored. chats w r = Some stored \<and> c = populate (users w) stored)))"
  by (auto simp: getChat_def getChat_try_def Let_def split: sum.splits option.splits prod.splits)



lemma findJS_populated:
  "findJS (\<lambda>p. sameUser (p_userId p) u)
     (map (\<lambda>p. p\<lparr>p_userId := (if us (ref_id (p_userId p)) = None then Missing (ref_id (p_userId p))
                               else UserDoc (ref_id (p_userId p)))\<rparr>) ps) \<noteq> Inr (Some q)"
  by (induction ps) (simp_all add: sameUser_def)



lemma saveMessage_effect:
  "(chats (snd (saveMessage rt w now oid d)) = chats w
      \<and> (\<forall>m. fst (saveMessage rt w now oid d) \<noteq> Inr m)) \<or>
   (\<exists>c c' m. chats w (d_roomId d) = Some c
       \<and> chats (snd (saveMessage rt w now oid d)) = (chats w)(d_roomId d \<mapsto> c')
       \<and> status c' = status c \<and> messages c' = messages c @ [m]
       \<and> fst (saveMessage rt w now oid d) = Inr m
       \<and> averageResponseTime (analytics c') = average (map m_responseTime (messages c')))"
proof (cases "getChat w now (d_roomId d)")
  case (Pair res w1)
  note g = getChat_result [OF Pair]
  then obtain x where x: "res = Inr x" by blast
  show ?thesis
  proof (cases x)
    case None
    with Pair x g show ?thesis by (simp add: saveMessage_def)
  next
    case (Some obj)
    show ?thesis
    proof (cases obj)
      case (Plain v)
      with Pair x g Some show ?thesis by (simp add: saveMessage_def)
    next
      case (Doc c)
      with g x Some obtain stored where st: "chats w (d_roomId d) = Some stored"
        and c: "c = populate (users w) stored" by auto
      show ?thesis
        using Pair x g Some Doc st c
        by (auto simp: saveMessage_def addMessage_def save_result Let_def preSave_average
            split: option.splits)
    qed
  qed
qed


lemma setFeedback_length [simp]: "length (setFeedback i f ms) = length ms"
  by (induction ms) simp_all








lemma trims:
  "trim ascii ''hello'' = ''hello''" "trim ascii ''Hi there!'' = ''Hi there!''"
  "trim ascii ''greeting'' = ''greeting''"
proof -
  have "ascii_trim ''hello'' = ''hello''" "ascii_trim ''Hi there!'' = ''Hi there!''"
    "ascii_trim ''greeting'' = ''greeting''"
    by code_simp+
  then show "trim ascii ''hello'' = ''hello''" "trim ascii ''Hi there!'' = ''Hi there!''"
    "trim ascii ''greeting'' = ''greeting''"
    by (simp_all add: ascii_def)
qed

lemmas chat_eval =
  saveMessage_def getChat_def getChat_try_def getCache_def getCache_try_def setCache_def
  setCache_try_def world1_def chat1_def turn_data_def intent_label_def messageObj_def
  addMessage_def cast_message_def valid_message_def valid_entity_def save_def preSave_def
  average_def cacheChat_def trackActivity_def Let_def trims rated_def
  addMessageFeedback_def valid_feedback_def updateChatAnalytics_def rating_of_def
  endChat_def removeParticipant_def cleanupInactiveChats_def inactive_def
  archiveChat_def deleteCache_def deleteCache_try_def joinChat_def present_def
  populate_def depopulate_def ref_id_def takesPart_def sameUser_def andThen_def
  addParticipant_def

text \<open>
  C7. When \<^verbatim>\<open>saveMessage\<close> returns a message, the stored conversation is the earlier one
  with that message appended, and its \<^verbatim>\<open>averageResponseTime\<close> is the sum of the latencies
  of all its messages divided by their number. The same holds after the model method
  \<^verbatim>\<open>addMessage\<close>, through the \<^verbatim>\<open>pre('save')\<close> hook, for the document it returns and for the
  one the collection then holds. (Three turns with the latencies 100, 200 and 300 give
  200.)
\<close>

theorem saveMessage_average:
  "(saveMessage rt w now oid d = (Inr m, w') \<longrightarrow>
      (\<exists>c c'. chats w (d_roomId d) = Some c \<and> chats w' (d_roomId d) = Some c'
         \<and> messages c' = messages c @ [m]
         \<and> averageResponseTime (analytics c')
             = sum_list (map m_responseTime (messages c')) / real (length (messages c')))) \<and>
   (addMessage rt w now r c m0 = (Inr c1, w1) \<longrightarrow>
      messages c1 = messages c @ [cast_message rt m0]
      \<and> averageResponseTime (analytics c1)
          = sum_list (map m_responseTime (messages c1)) / real (length (messages c1))
      \<and> (\<exists>s. chats w1 r = Some s \<and> messages s = messages c1
            \<and> averageResponseTime (analytics s) = averageResponseTime (analytics c1)))"
proof (intro conjI impI)
  assume s: "saveMessage rt w now oid d = (Inr m, w')"
  with saveMessage_effect [of rt w now oid d]
  show "\<exists>c c'. chats w (d_roomId d) = Some c \<and> chats w' (d_roomId d) = Some c'
         \<and> messages c' = messages c @ [m]
         \<and> averageResponseTime (analytics c')
             = sum_list (map m_responseTime (messages c')) / real (length (messages c'))"
    by (auto simp: average_mean)
next
  assume a: "addMessage rt w now r c m0 = (Inr c1, w1)"
  then have v: "valid_message (cast_message rt m0)"
    by (auto simp: addMessage_def split: if_splits)
  with a have c1: "c1 = preSave now (c\<lparr>messages := messages c @ [cast_message rt m0]\<rparr>)"
    and w1: "w1 = w\<lparr>chats := (chats w)(r \<mapsto> depopulate c1)\<rparr>"
    by (auto simp: addMessage_def save_result)
  show "messages c1 = messages c @ [cast_message rt m0]" using c1 by simp
  show "averageResponseTime (analytics c1)
          = sum_list (map m_responseTime (messages c1)) / real (length (messages c1))"
    using c1 by (simp add: preSave_average average_mean)
  show "\<exists>s. chats w1 r = Some s \<and> messages s = messages c1
            \<and> averageResponseTime (analytics s) = averageResponseTime (analytics c1)"
    using w1 by simp
qed

theorem saveMessage_average_witness:
  "fst (saveMessage ascii
          (run ascii world1
             [(10, SaveMessage 1 (turn_data 100)), (20, SaveMessage 2 (turn_data 200))])
          30 3 (turn_data 300))
     = Inr (cast_message ascii (messageObj 3 (turn_data 300) ''greeting'')) \<and>
   map_option (\<lambda>c. (map m_responseTime (messages c), averageResponseTime (analytics c)))
     (chats (snd (saveMessage ascii
          (run ascii world1
             [(10, SaveMessage 1 (turn_data 100)), (20, SaveMessage 2 (turn_data 200))])
          30 3 (turn_data 300))) ''room1'')
     = Some ([100, 200, 300], 200)"
proof -
  let ?w2 = "run ascii world1
               [(10, SaveMessage 1 (turn_data 100)), (20, SaveMessage 2 (turn_data 200))]"
  let ?m = "cast_message ascii (messageObj 3 (turn_data 300) ''greeting'')"
  have f: "fst (saveMessage ascii ?w2 30 3 (turn_data 300)) = Inr ?m"
    by (simp add: chat_eval)
  then have h: "saveMessage ascii ?w2 30 3 (turn_data 300)
                  = (Inr ?m, snd (saveMessage ascii ?w2 30 3 (turn_data 300)))"
    by (metis prod.collapse)
  have d: "d_roomId (turn_data 300) = ''room1''" by (simp add: turn_data_def)
  note t = saveMessage_average [of ascii ?w2 30 3 "turn_data 300" ?m
         "snd (saveMessage ascii ?w2 30 3 (turn_data 300))" "''room1''" chat1 ?m chat1 world1]
  from t [THEN conjunct1, THEN mp, OF h, unfolded d]
  obtain c c' where c: "chats ?w2 ''room1'' = Some c"
    and c': "chats (snd (saveMessage ascii ?w2 30 3 (turn_data 300))) ''room1'' = Some c'"
    and ms: "messages c' = messages c @ [?m]"
    and av: "averageResponseTime (analytics c')
             = sum_list (map m_responseTime (messages c')) / real (length (messages c'))"
    by blast
  have "map m_responseTime (messages c) = [100, 200]"
    using c by (auto simp: chat_eval)
  with ms have rt: "map m_responseTime (messages c') = [100, 200, 300]"
    by (simp add: cast_message_def messageObj_def turn_data_def)
  then have "length (messages c') = 3"
    by (metis length_map length_Cons list.size(3) numeral_3_eq_3)
  with av rt have "averageResponseTime (analytics c') = 200" by simp
  with f c' rt show ?thesis by simp
qed






end
